theory Spec2Isabelle
  imports Main
begin

section \<open>The LittleFS upload command of \<^verbatim>\<open>src/extension.ts\<close>\<close>

text \<open>
  The extension registers one command, \<^verbatim>\<open>arduino-littlefs-upload.uploadLittleFS\<close>.
  Its handler reads the board description supplied by the Arduino context, works out
  where the filesystem lives in flash, builds an image with \<^verbatim>\<open>mklittlefs\<close> and
  writes it to the device with a Python upload script. The handler is embedded here
  as a function from everything it reads (the context, the platform name, the file
  system, the temporary name, what the child processes do) to the sequence of things
  it does (messages written, tools looked up, processes spawned) and the
  \<^verbatim>\<open>return\<close> it leaves through.
\<close>

subsection \<open>JavaScript values the handler computes with\<close>

text \<open>
  Text is kept as the bytes of its UTF-8 encoding.

  The numbers of the handler are flash addresses, sizes and a baud rate. They are
  modelled by their integer value, with \<open>NaN\<close> for the result of \<^verbatim>\<open>Number(...)\<close> on a
  missing property or on text that is no numeric literal. JavaScript computes with
  integers exactly up to \<open>2 ^ 53\<close>, and that is the range in which this model is the
  program: it has no number that is not an integer, no infinity and no rounding.
\<close>

datatype jsnum = NaN | Num int

text \<open>\<^verbatim>\<open>!x\<close> on a number is true for \<open>0\<close> and for \<open>NaN\<close>.\<close>

fun falsy :: "jsnum \<Rightarrow> bool" where
  "falsy NaN = True"
| "falsy (Num n) = (n = 0)"

text \<open>\<^verbatim>\<open>a <= b\<close>: every comparison with \<open>NaN\<close> is false.\<close>

fun num_le :: "jsnum \<Rightarrow> jsnum \<Rightarrow> bool" where
  "num_le (Num a) (Num b) = (a \<le> b)"
| "num_le _ _ = False"

text \<open>\<^verbatim>\<open>a - b\<close>: \<open>NaN\<close> is contagious.\<close>

fun num_sub :: "jsnum \<Rightarrow> jsnum \<Rightarrow> jsnum" where
  "num_sub (Num a) (Num b) = Num (a - b)"
| "num_sub _ _ = NaN"

definition CR :: char where "CR = CHR 0x0D"
definition LF :: char where "LF = CHR 0x0A"
definition ESC :: char where "ESC = CHR 0x1B"

definition crlf :: string where
  "crlf = [CR, LF]"

text \<open>
  The white space that \<^verbatim>\<open>Number\<close> drops around a literal (\<^verbatim>\<open>StrWhiteSpaceChar\<close>): tab,
  line feed, vertical tab, form feed, carriage return, space, and in UTF-8 the no-break
  space \<^verbatim>\<open>U+00A0\<close>, \<^verbatim>\<open>U+1680\<close>, \<^verbatim>\<open>U+2000\<close> to \<^verbatim>\<open>U+200A\<close>, the line and paragraph
  separators \<^verbatim>\<open>U+2028\<close> and \<^verbatim>\<open>U+2029\<close>, \<^verbatim>\<open>U+202F\<close>, \<^verbatim>\<open>U+205F\<close>, \<^verbatim>\<open>U+3000\<close> and the
  byte order mark \<^verbatim>\<open>U+FEFF\<close>.
\<close>

definition StrWhiteSpaceChar :: "string list" where
  "StrWhiteSpaceChar =
     [ [CHR 0x09], [CHR 0x0A], [CHR 0x0B], [CHR 0x0C], [CHR 0x0D], [CHR 0x20],
      [CHR 0xC2, CHR 0xA0], [CHR 0xE1, CHR 0x9A, CHR 0x80],
      [CHR 0xE2, CHR 0x80, CHR 0x80], [CHR 0xE2, CHR 0x80, CHR 0x81],
      [CHR 0xE2, CHR 0x80, CHR 0x82], [CHR 0xE2, CHR 0x80, CHR 0x83],
      [CHR 0xE2, CHR 0x80, CHR 0x84], [CHR 0xE2, CHR 0x80, CHR 0x85],
      [CHR 0xE2, CHR 0x80, CHR 0x86], [CHR 0xE2, CHR 0x80, CHR 0x87],
      [CHR 0xE2, CHR 0x80, CHR 0x88], [CHR 0xE2, CHR 0x80, CHR 0x89],
      [CHR 0xE2, CHR 0x80, CHR 0x8A], [CHR 0xE2, CHR 0x80, CHR 0xA8],
      [CHR 0xE2, CHR 0x80, CHR 0xA9], [CHR 0xE2, CHR 0x80, CHR 0xAF],
      [CHR 0xE2, CHR 0x81, CHR 0x9F], [CHR 0xE3, CHR 0x80, CHR 0x80],
      [CHR 0xEF, CHR 0xBB, CHR 0xBF]]"

text \<open>Dropping from the front of a text every leading occurrence of one of the words.\<close>

function strip :: "string list \<Rightarrow> string \<Rightarrow> string" where
  "strip ws s =
     (case find (\<lambda>w. w \<noteq> [] \<and> take (length w) s = w) ws of
        None \<Rightarrow> s
      | Some w \<Rightarrow> strip ws (drop (length w) s))"
  by pat_completeness auto
termination
proof (relation "measure (\<lambda>(ws, s). length s)")
  show "wf (measure (\<lambda>(ws, s). length s))" by simp
next
  fix ws :: "string list" and s w :: string
  assume "find (\<lambda>w. w \<noteq> [] \<and> take (length w) s = w) ws = Some w"
  then have w: "w \<noteq> []" "take (length w) s = w"
    by (auto simp: find_Some_iff)
  from w(2) have "length (take (length w) s) = length w"
    by simp
  then have "length w \<le> length s"
    by simp
  with w(1) show "((ws, drop (length w) s), (ws, s)) \<in> measure (\<lambda>(ws, s). length s)"
    by (cases w) auto
qed

declare strip.simps [simp del]

definition trim :: "string \<Rightarrow> string" where
  "trim s = rev (strip (map rev StrWhiteSpaceChar) (rev (strip StrWhiteSpaceChar s)))"

text \<open>Digits: \<open>0\<close> to \<open>9\<close>, and \<open>a\<close> to \<open>f\<close> in either case for the hexadecimal literals.\<close>

definition digit_value :: "char \<Rightarrow> nat option" where
  "digit_value c =
     (let k = of_char c :: nat in
      if 48 \<le> k \<and> k \<le> 57 then Some (k - 48)
      else if 97 \<le> k \<and> k \<le> 102 then Some (k - 87)
      else if 65 \<le> k \<and> k \<le> 70 then Some (k - 55)
      else None)"

fun digits_value :: "nat \<Rightarrow> nat \<Rightarrow> string \<Rightarrow> nat option" where
  "digits_value radix acc [] = Some acc"
| "digits_value radix acc (c # cs) =
     (case digit_value c of
        None \<Rightarrow> None
      | Some d \<Rightarrow> if d < radix then digits_value radix (acc * radix + d) cs else None)"

definition literal :: "nat \<Rightarrow> string \<Rightarrow> nat option" where
  "literal radix s = (if s = [] then None else digits_value radix 0 s)"

definition is_decimal_digit :: "char \<Rightarrow> bool" where
  "is_decimal_digit c = (c \<in> set ''0123456789'')"

text \<open>
  The grammar of \<^verbatim>\<open>Number\<close> on a string (\<^verbatim>\<open>StringNumericLiteral\<close> of the language
  definition), with what a literal denotes: \<^verbatim>\<open>Infinity\<close>, or the digits \<open>n\<close> of
  mantissa and fraction with a decimal exponent \<open>k\<close>, for \<open>n * 10 ^ k\<close>.

  A mantissa is digits, digits and a point, digits on both sides of a point or a point
  and digits. An exponent part is \<^verbatim>\<open>e\<close> or \<^verbatim>\<open>E\<close> and an integer of at least one digit
  with an optional sign.
\<close>

datatype literal_value = Infinity | Finite nat int

definition mantissa :: "string \<Rightarrow> (string \<times> string) option" where
  "mantissa m =
     (let whole = takeWhile is_decimal_digit m in
      case dropWhile is_decimal_digit m of
        [] \<Rightarrow> if whole = [] then None else Some (whole, [])
      | c # fraction \<Rightarrow>
          if c = CHR ''.'' \<and> list_all is_decimal_digit fraction \<and> (whole \<noteq> [] \<or> fraction \<noteq> [])
          then Some (whole, fraction) else None)"

definition exponent :: "string \<Rightarrow> int option" where
  "exponent x =
     (case x of
        [] \<Rightarrow> Some 0
      | e # rest \<Rightarrow>
          (case rest of
             [] \<Rightarrow> None
           | c # ds \<Rightarrow>
               if c = CHR ''+'' then map_option int (literal 10 ds)
               else if c = CHR ''-'' then map_option (\<lambda>n. - int n) (literal 10 ds)
               else map_option int (literal 10 rest)))"

definition no_exponent_mark :: "char \<Rightarrow> bool" where
  "no_exponent_mark c = (c \<noteq> CHR ''e'' \<and> c \<noteq> CHR ''E'')"

definition StrUnsignedDecimalLiteral :: "string \<Rightarrow> literal_value option" where
  "StrUnsignedDecimalLiteral u =
     (if u = ''Infinity'' then Some Infinity
      else
        (case mantissa (takeWhile no_exponent_mark u) of
           None \<Rightarrow> None
         | Some (whole, fraction) \<Rightarrow>
             (case exponent (dropWhile no_exponent_mark u) of
                None \<Rightarrow> None
              | Some k \<Rightarrow>
                  (case digits_value 10 0 (whole @ fraction) of
                     None \<Rightarrow> None
                   | Some n \<Rightarrow> Some (Finite n (k - int (length fraction)))))))"

text \<open>
  A numeric literal is an unsigned \<^verbatim>\<open>0x\<close>, \<^verbatim>\<open>0o\<close> or \<^verbatim>\<open>0b\<close> literal, or a decimal
  literal with an optional sign. The result tells whether the sign is a minus.
\<close>

definition StrNumericLiteral :: "string \<Rightarrow> (bool \<times> literal_value) option" where
  "StrNumericLiteral t =
     (if take 2 t = ''0x'' \<or> take 2 t = ''0X'' then
        map_option (\<lambda>n. (False, Finite n 0)) (literal 16 (drop 2 t))
      else if take 2 t = ''0o'' \<or> take 2 t = ''0O'' then
        map_option (\<lambda>n. (False, Finite n 0)) (literal 8 (drop 2 t))
      else if take 2 t = ''0b'' \<or> take 2 t = ''0B'' then
        map_option (\<lambda>n. (False, Finite n 0)) (literal 2 (drop 2 t))
      else
        (case t of
           [] \<Rightarrow> None
         | c # u \<Rightarrow>
             if c = CHR ''+'' then map_option (Pair False) (StrUnsignedDecimalLiteral u)
             else if c = CHR ''-'' then map_option (Pair True) (StrUnsignedDecimalLiteral u)
             else map_option (Pair False) (StrUnsignedDecimalLiteral t)))"


text \<open>
  The integer a literal denotes, if it denotes one: \<open>n * 10 ^ k\<close> when \<open>k\<close> is not
  negative or \<open>10 ^ - k\<close> divides \<open>n\<close>.
\<close>

definition integer_value :: "literal_value \<Rightarrow> nat option" where
  "integer_value v =
     (case v of
        Infinity \<Rightarrow> None
      | Finite n k \<Rightarrow>
          if 0 \<le> k then Some (n * 10 ^ nat k)
          else if 10 ^ nat (- k) dvd n then Some (n div 10 ^ nat (- k))
          else None)"

definition of_literal :: "bool \<Rightarrow> nat option \<Rightarrow> jsnum" where
  "of_literal neg v = (case v of None \<Rightarrow> NaN | Some n \<Rightarrow> Num (if neg then - int n else int n))"

text \<open>
  \<^verbatim>\<open>Number(s)\<close> on a string: white space around the literal is dropped, the empty text
  is \<open>0\<close>, text that is no numeric literal is \<open>NaN\<close>, and a literal that denotes an
  integer is that integer. Here the model of the numbers ends: a literal that denotes
  no integer (a proper fraction, \<^verbatim>\<open>Infinity\<close>) is a number in JavaScript and has no
  value among the integers, and it is read as \<open>NaN\<close> too. \<open>StringNumericLiteral\<close>
  tells the two apart, and the properties below that speak of text that is no number
  are stated with it.
\<close>

definition Number_string :: "string \<Rightarrow> jsnum" where
  "Number_string s =
     (let t = trim s in
      if t = [] then Num 0
      else
        (case StrNumericLiteral t of
           None \<Rightarrow> NaN
         | Some (neg, v) \<Rightarrow> of_literal neg (integer_value v)))"

text \<open>\<^verbatim>\<open>Number(x)\<close> where \<open>x\<close> may be \<^verbatim>\<open>undefined\<close>: \<^verbatim>\<open>Number(undefined)\<close> is \<open>NaN\<close>.\<close>

definition Number_js :: "string option \<Rightarrow> jsnum" where
  "Number_js x = (case x of None \<Rightarrow> NaN | Some s \<Rightarrow> Number_string s)"

text \<open>\<^verbatim>\<open>String(n)\<close> on a number: the decimal digits, after a minus sign if negative.\<close>

fun decimal :: "nat \<Rightarrow> string" where
  "decimal n =
     (if n < 10 then [''0123456789'' ! n]
      else decimal (n div 10) @ [''0123456789'' ! (n mod 10)])"

declare decimal.simps [simp del]

fun String_js :: "jsnum \<Rightarrow> string" where
  "String_js NaN = ''NaN''"
| "String_js (Num n) = (if n < 0 then CHR ''-'' # decimal (nat (- n)) else decimal (nat n))"

text \<open>\<^verbatim>\<open>xs.join(" ")\<close>.\<close>

fun join_space :: "string list \<Rightarrow> string" where
  "join_space [] = []"
| "join_space [x] = x"
| "join_space (x # y # ys) = x @ '' '' @ join_space (y # ys)"

text \<open>\<^verbatim>\<open>s.split(':')\<close>: the pieces between the colons, at least one.\<close>

fun split_colon :: "string \<Rightarrow> string list" where
  "split_colon [] = ['''']"
| "split_colon (c # cs) =
     (if c = CHR '':'' then [] # split_colon cs
      else (case split_colon cs of [] \<Rightarrow> [c # []] | p # ps \<Rightarrow> (c # p) # ps))"

text \<open>\<^verbatim>\<open>elem.startsWith(match)\<close>.\<close>

definition startsWith :: "string \<Rightarrow> string \<Rightarrow> bool" where
  "startsWith elem match = (take (length match) elem = match)"

text \<open>
  \<^verbatim>\<open>String(chunk).replace(/\n/g, "\r\n")\<close>: the pattern is the single character line
  feed and the flag \<^verbatim>\<open>g\<close> replaces every match.
\<close>

fun replace_lf :: "string \<Rightarrow> string" where
  "replace_lf [] = []"
| "replace_lf (c # cs) = (if c = LF then CR # LF # replace_lf cs else c # replace_lf cs)"

subsection \<open>The Arduino context\<close>

text \<open>
  \<open>buildProperties\<close> is an object used as a dictionary; it is kept as the list of its
  keys in the order \<^verbatim>\<open>Object.keys\<close> gives them, each with its value, which the code
  allows to be \<^verbatim>\<open>undefined\<close>.
\<close>

record config_value =
  val :: string
  selected :: bool

record config_option =
  option :: string
  values_of :: "config_value list"

record board_details =
  buildProperties :: "(string \<times> string option) list"
  configOptions :: "config_option list"

record port_info =
  address :: string
  protocol :: string

record arduino_context =
  boardDetails :: "board_details option"
  fqbn :: "string option"
  sketchPath :: "string option"
  port :: "port_info option"

text \<open>\<^verbatim>\<open>boardDetails.buildProperties[key]\<close>.\<close>

definition property :: "board_details \<Rightarrow> string \<Rightarrow> string option" where
  "property bd key = (case map_of (buildProperties bd) key of None \<Rightarrow> None | Some v \<Rightarrow> v)"

subsection \<open>Resolving the filesystem geometry (lines 102 to 138)\<close>

datatype family = RP2040 | ESP8266

text \<open>The \<^verbatim>\<open>switch\<close> on the second segment of the board name (lines 85 to 100).\<close>

definition family_of :: "string \<Rightarrow> family option" where
  "family_of name =
     (case split_colon name of
        _ # seg # _ \<Rightarrow>
          if seg = ''rp2040'' then Some RP2040
          else if seg = ''esp8266'' then Some ESP8266
          else None
      | _ \<Rightarrow> None)"

definition pico :: "family \<Rightarrow> bool" where
  "pico fam = (fam = RP2040)"

definition optSeek :: "family \<Rightarrow> string" where
  "optSeek fam = (if pico fam then ''flash'' else ''eesz'')"

definition startMarker :: "family \<Rightarrow> string" where
  "startMarker fam = (if pico fam then ''fs_start'' else ''spiffs_start'')"

definition endMarker :: "family \<Rightarrow> string" where
  "endMarker fam = (if pico fam then ''fs_end'' else ''spiffs_end'')"

text \<open>The five locals the scan assigns.\<close>

record fs_config =
  fsStart :: jsnum
  fsEnd :: jsnum
  page :: jsnum
  blocksize :: jsnum
  uploadSpeed :: jsnum

definition initial_config :: fs_config where
  "initial_config =
     \<lparr>fsStart = Num 0, fsEnd = Num 0, page = Num 0, blocksize = Num 0, uploadSpeed = Num 115200\<rparr>"

definition menustr :: "family \<Rightarrow> config_value \<Rightarrow> string" where
  "menustr fam itm = ''menu.'' @ optSeek fam @ ''.'' @ val itm @ ''.build.''"

text \<open>The body of the inner \<^verbatim>\<open>forEach\<close> over the values of the sizing option.\<close>

definition size_item :: "family \<Rightarrow> board_details \<Rightarrow> config_value \<Rightarrow> fs_config \<Rightarrow> fs_config" where
  "size_item fam bd itm c =
     (if selected itm then
        c\<lparr>fsStart := Number_js (property bd (menustr fam itm @ startMarker fam)),
          fsEnd := Number_js (property bd (menustr fam itm @ endMarker fam)),
          page := (if pico fam then Num 256
                   else Number_js (property bd (menustr fam itm @ ''spiffs_pagesize''))),
          blocksize := (if pico fam then Num 4096
                        else Number_js (property bd (menustr fam itm @ ''spiffs_blocksize'')))\<rparr>
      else c)"

text \<open>The body of the inner \<^verbatim>\<open>forEach\<close> over the values of the \<^verbatim>\<open>baud\<close> option.\<close>

definition baud_item :: "config_value \<Rightarrow> fs_config \<Rightarrow> fs_config" where
  "baud_item itm c = (if selected itm then c\<lparr>uploadSpeed := Number_string (val itm)\<rparr> else c)"

text \<open>The body of the outer \<^verbatim>\<open>forEach\<close> over the options.\<close>

definition scan_option :: "family \<Rightarrow> board_details \<Rightarrow> config_option \<Rightarrow> fs_config \<Rightarrow> fs_config" where
  "scan_option fam bd opt c =
     (if option opt = optSeek fam then fold (size_item fam bd) (values_of opt) c
      else if option opt = ''baud'' then fold baud_item (values_of opt) c
      else c)"

definition resolve :: "family \<Rightarrow> board_details \<Rightarrow> fs_config" where
  "resolve fam bd = fold (scan_option fam bd) (configOptions bd) initial_config"

text \<open>The test of line 135.\<close>

definition no_filesystem :: "fs_config \<Rightarrow> bool" where
  "no_filesystem c =
     (falsy (fsStart c) \<or> falsy (fsEnd c) \<or> falsy (page c) \<or> falsy (blocksize c)
      \<or> num_le (fsEnd c) (fsStart c))"

subsection \<open>Locating tools (lines 29 to 41)\<close>

text \<open>
  \<^verbatim>\<open>findTool\<close> walks the keys of \<open>buildProperties\<close> and keeps the value of the first
  key that starts with \<open>match\<close> and has a defined value.
\<close>

definition findTool :: "arduino_context \<Rightarrow> string \<Rightarrow> string option" where
  "findTool c match =
     (case boardDetails c of
        None \<Rightarrow> None
      | Some bd \<Rightarrow>
          snd (fold (\<lambda>elem (found, ret).
                       if startsWith elem match \<and> \<not> found \<and> property bd elem \<noteq> None
                       then (True, property bd elem) else (found, ret))
                    (map fst (buildProperties bd)) (False, None)))"

text \<open>
  The pattern \<^verbatim>\<open>if (tool) { name = tool + "/" + name; }\<close>: an undefined or empty
  directory leaves the bare name.
\<close>

definition under :: "string option \<Rightarrow> string \<Rightarrow> string" where
  "under dir name =
     (case dir of None \<Rightarrow> name | Some d \<Rightarrow> if d = [] then name else d @ ''/'' @ name)"

subsection \<open>What the handler reads and what it does\<close>

text \<open>
  A child process either cannot be started, or runs and closes: then it has written
  chunks to its standard output and to its standard error, and the \<^verbatim>\<open>close\<close> event
  carries its exit code, \<^verbatim>\<open>null\<close> (here \<open>None\<close>) when a signal ended it. The handler
  reads the standard output to its end before it reads the standard error.
\<close>

datatype proc_result = SpawnError | Closed "string list" "string list" "int option"

record env =
  ctx :: arduino_context
  platform :: string
  writerReady :: "nat \<Rightarrow> bool"
  existsSync :: "string \<Rightarrow> bool"
  tmpName :: string
  spawn :: "string \<Rightarrow> string list \<Rightarrow> proc_result"

text \<open>
  \<open>writerReady e k\<close> is the value of the flag \<^verbatim>\<open>writerReady\<close> when the loop of line 68
  tests it for the \<open>k\<close>-th time; \<open>tmpName e\<close> is the fresh name \<^verbatim>\<open>tmp.tmpNameSync\<close>
  makes up, before the postfix; \<open>spawn e cmd args\<close> is what becomes of the process
  started with this command and these arguments.

  What a run does is recorded in order: a message shown in a window
  (\<^verbatim>\<open>showErrorMessage\<close>, \<^verbatim>\<open>showInformationMessage\<close>), text written to the terminal
  (\<^verbatim>\<open>writeEmitter.fire\<close>), a call of \<^verbatim>\<open>findTool\<close> with its key prefix, the read of
  \<^verbatim>\<open>arduinoContext.port\<close> that opens the port checks (line 156), and the spawn of a
  process.
\<close>

datatype event =
    ShowErrorMessage string
  | ShowInformationMessage string
  | Fire string
  | FindTool string
  | ReadPort
  | Spawn string "string list"

text \<open>
  The \<^verbatim>\<open>return\<close> statements of the handler, named after the error they report, and
  its normal end. A process that cannot be started is reported by Node through the
  \<^verbatim>\<open>error\<close> event of the child. The handler registers no listener for that event and
  catches no exception, so the event goes unhandled, no \<^verbatim>\<open>close\<close> event follows and the
  handler gets no further than the spawn: the run then ends in none of the returns,
  which is \<open>UnhandledSpawnError\<close>.
\<close>

datatype outcome =
    MissingBoardDetails
  | MissingDataFolder
  | UnsupportedBoard
  | MissingFilesystemConfig
  | UnsupportedPort
  | BuildFailure int
  | UploadFailure int
  | Completed
  | UnhandledSpawnError

record run =
  events :: "event list"
  outcome :: outcome

definition stop :: "event list \<Rightarrow> outcome \<Rightarrow> run" where
  "stop es out = \<lparr>events = es, outcome = out\<rparr>"

definition emit :: "event list \<Rightarrow> run \<Rightarrow> run" where
  "emit es r = r\<lparr>events := es @ events r\<rparr>"

text \<open>The two \<^verbatim>\<open>for await\<close> loops over the output of a process.\<close>

definition forward :: "string list \<Rightarrow> event list" where
  "forward chunks = map (\<lambda>chunk. Fire (replace_lf chunk)) chunks"

text \<open>
  \<^verbatim>\<open>if (exitCode)\<close>: \<^verbatim>\<open>null\<close> and \<open>0\<close> are falsy; the result is the code the error
  message reports, if there is one to report.
\<close>

definition failure :: "int option \<Rightarrow> int option" where
  "failure exitCode =
     (case exitCode of None \<Rightarrow> None | Some n \<Rightarrow> if n \<noteq> 0 then Some n else None)"

subsection \<open>The upload stage (lines 206 to 244)\<close>

definition uploadOpts :: "arduino_context \<Rightarrow> family \<Rightarrow> fs_config \<Rightarrow> string \<Rightarrow> string \<Rightarrow> string list" where
  "uploadOpts c fam g serialPort imageFile =
     (if pico fam then
        [under (findTool c ''runtime.platform.path'') ''tools/uf2conv.py'',
         ''--base'', String_js (fsStart g), ''--serial'', serialPort,
         ''--family'', ''RP2040'', imageFile]
      else
        [under (findTool c ''runtime.platform.path'') ''tools/upload.py'',
         ''--chip'', ''esp8266'', ''--port'', serialPort,
         ''--baud'', String_js (uploadSpeed g), ''write_flash'', String_js (fsStart g), imageFile])"

definition upload_stage :: "env \<Rightarrow> family \<Rightarrow> fs_config \<Rightarrow> string \<Rightarrow> string \<Rightarrow> string \<Rightarrow> run" where
  "upload_stage e fam g serialPort python3 imageFile =
     (let opts = uploadOpts (ctx e) fam g serialPort imageFile in
      emit [FindTool ''runtime.platform.path'',
            Fire (crlf @ crlf @ ''Uploading LittleFS filesystem'' @ crlf),
            Fire (python3 @ '' '' @ join_space opts @ crlf),
            Spawn python3 opts]
        (case spawn e python3 opts of
           SpawnError \<Rightarrow> stop [] UnhandledSpawnError
         | Closed out err exitCode \<Rightarrow>
             emit (forward out @ forward err)
               (case failure exitCode of
                  Some n \<Rightarrow>
                    stop [Fire (''ERROR:  Upload failed, error code: ''
                                @ String_js (Num n) @ crlf @ crlf)]
                         (UploadFailure n)
                | None \<Rightarrow>
                    stop [Fire (crlf @ ''Completed upload.'' @ crlf @ crlf),
                          ShowInformationMessage ''LittleFS upload completed!'']
                         Completed)))"

subsection \<open>The build stage (lines 178 to 204)\<close>

definition buildOpts :: "string \<Rightarrow> fs_config \<Rightarrow> string \<Rightarrow> string list" where
  "buildOpts dataFolder g imageFile =
     [''-c'', dataFolder, ''-p'', String_js (page g), ''-b'', String_js (blocksize g),
      ''-s'', String_js (num_sub (fsEnd g) (fsStart g)), imageFile]"

definition build_stage ::
  "env \<Rightarrow> family \<Rightarrow> fs_config \<Rightarrow> string \<Rightarrow> string \<Rightarrow> string \<Rightarrow> string \<Rightarrow> run" where
  "build_stage e fam g dataFolder mklittlefs serialPort python3 =
     (let imageFile = tmpName e @ ''.littlefs.bin'';
          opts = buildOpts dataFolder g imageFile in
      emit [Fire (''Building LittleFS filesystem'' @ crlf),
            Fire (mklittlefs @ '' '' @ join_space opts @ crlf),
            Spawn mklittlefs opts]
        (case spawn e mklittlefs opts of
           SpawnError \<Rightarrow> stop [] UnhandledSpawnError
         | Closed out err exitCode \<Rightarrow>
             emit (forward out @ forward err)
               (case failure exitCode of
                  Some n \<Rightarrow>
                    stop [Fire (''ERROR:  Mklittlefs failed, error code: ''
                                @ String_js (Num n) @ crlf @ crlf)]
                         (BuildFailure n)
                | None \<Rightarrow> upload_stage e fam g serialPort python3 imageFile)))"

subsection \<open>Tool paths and the serial port (lines 140 to 176)\<close>

definition ext :: "env \<Rightarrow> string" where
  "ext e = (if platform e = ''win32'' then ''.exe'' else [])"

definition mklittlefs_key :: "family \<Rightarrow> string" where
  "mklittlefs_key fam =
     (if pico fam then ''runtime.tools.pqt-mklittlefs'' else ''runtime.tools.mklittlefs'')"

definition python3_key :: "family \<Rightarrow> string" where
  "python3_key fam =
     (if pico fam then ''runtime.tools.pqt-python3'' else ''runtime.tools.python3'')"

definition mklittlefs :: "env \<Rightarrow> family \<Rightarrow> string" where
  "mklittlefs e fam = under (findTool (ctx e) (mklittlefs_key fam)) (''mklittlefs'' @ ext e)"

definition python3 :: "env \<Rightarrow> family \<Rightarrow> string" where
  "python3 e fam = under (findTool (ctx e) (python3_key fam)) (''python3'' @ ext e)"

definition locate_stage :: "env \<Rightarrow> family \<Rightarrow> fs_config \<Rightarrow> string \<Rightarrow> run" where
  "locate_stage e fam g dataFolder =
     emit [FindTool (mklittlefs_key fam), ReadPort]
       (case port (ctx e) of
          None \<Rightarrow> stop [Fire (''ERROR: No port specified, check IDE menus.'' @ crlf)]
                       UnsupportedPort
        | Some p \<Rightarrow>
            if protocol p \<noteq> ''serial'' then
              stop [Fire (''ERROR: Only serial port upload supported at this time.'' @ crlf)]
                   UnsupportedPort
            else
              emit [FindTool (python3_key fam)]
                (build_stage e fam g dataFolder (mklittlefs e fam) (address p) (python3 e fam)))"

subsection \<open>The command handler (lines 57 to 245)\<close>

text \<open>
  The loop of line 68 sleeps until the terminal has opened. It need not end: the
  result is \<open>None\<close> when the flag never becomes true.
\<close>

partial_function (option) await_writer :: "(nat \<Rightarrow> bool) \<Rightarrow> nat \<Rightarrow> nat option" where
  "await_writer ready k = (if ready k then Some k else await_writer ready (Suc k))"

definition dataFolder :: "arduino_context \<Rightarrow> string" where
  "dataFolder c = (case sketchPath c of None \<Rightarrow> ''undefined'' | Some p \<Rightarrow> p) @ ''/data''"

definition clear_terminal :: string where
  "clear_terminal = [ESC] @ ''[2J'' @ [ESC] @ ''[3J'' @ [ESC] @ ''[;H''"

text \<open>Lines 72 to 138, and on to the later stages.\<close>

definition pipeline :: "env \<Rightarrow> board_details \<Rightarrow> string \<Rightarrow> run" where
  "pipeline e bd name =
     emit [Fire clear_terminal, Fire (''LittleFS Filesystem Uploader'' @ crlf @ crlf)]
       (if \<not> existsSync e (dataFolder (ctx e)) then
          stop [Fire (''ERROR: No data folder found'' @ crlf)] MissingDataFolder
        else
          (case family_of name of
             None \<Rightarrow>
               stop [Fire (''ERROR: Only Arduino-Pico RP2040 and ESP8266 supported.'' @ crlf)]
                    UnsupportedBoard
           | Some fam \<Rightarrow>
               if no_filesystem (resolve fam bd) then
                 stop [Fire (''ERROR: No filesystem specified, check flash size menu'' @ crlf)]
                      MissingFilesystemConfig
               else locate_stage e fam (resolve fam bd) (dataFolder (ctx e))))"

definition uploadLittleFS :: "env \<Rightarrow> run option" where
  "uploadLittleFS e =
     (case boardDetails (ctx e) of
        None \<Rightarrow>
          Some (stop [ShowErrorMessage ''Board details not available. Compile the sketch once.'']
                     MissingBoardDetails)
      | Some bd \<Rightarrow>
          (case fqbn (ctx e) of
             None \<Rightarrow>
               Some (stop [ShowErrorMessage ''Board details not available. Compile the sketch once.'']
                          MissingBoardDetails)
           | Some name \<Rightarrow>
               (case await_writer (writerReady e) 0 of
                  None \<Rightarrow> None
                | Some _ \<Rightarrow> Some (pipeline e bd name))))"

text \<open>The processes a run has spawned, in order: the command and its arguments.\<close>

fun spawns :: "event list \<Rightarrow> (string \<times> string list) list" where
  "spawns [] = []"
| "spawns (Spawn cmd args # es) = (cmd, args) # spawns es"
| "spawns (_ # es) = spawns es"

text \<open>The tool lookups of a run, in order: the key prefixes.\<close>

fun lookups :: "event list \<Rightarrow> string list" where
  "lookups [] = []"
| "lookups (FindTool key # es) = key # lookups es"
| "lookups (_ # es) = lookups es"

text \<open>The selected values of all options of one name, in the order the scan meets them.\<close>

definition selected_in :: "string \<Rightarrow> config_option list \<Rightarrow> config_value list" where
  "selected_in name opts =
     concat (map (\<lambda>opt. filter selected (values_of opt))
                 (filter (\<lambda>opt. option opt = name) opts))"

definition selected_values :: "string \<Rightarrow> board_details \<Rightarrow> config_value list" where
  "selected_values name bd = selected_in name (configOptions bd)"

subsection \<open>Notions used to state the properties\<close>

text \<open>What every run that gets past the wait writes first (lines 73 and 75).\<close>

definition head_events :: "event list" where
  "head_events = [Fire clear_terminal, Fire (''LittleFS Filesystem Uploader'' @ crlf @ crlf)]"

text \<open>
  What a run does before it first reads the port (line 156), and from there on. The
  output of the tools is forwarded as \<open>Fire\<close> events, so \<open>ReadPort\<close> occurs at most
  once.
\<close>

definition before_port :: "event list \<Rightarrow> event list" where
  "before_port es = takeWhile (\<lambda>ev. ev \<noteq> ReadPort) es"

definition after_port :: "event list \<Rightarrow> event list" where
  "after_port es = dropWhile (\<lambda>ev. ev \<noteq> ReadPort) es"

text \<open>
  The rewriting of line ends as the specification words it: a line feed becomes carriage
  return and line feed unless a carriage return already precedes it. \<open>after_cr\<close> tells
  whether the character just copied was a carriage return.
\<close>

fun rewrite_bare :: "bool \<Rightarrow> string \<Rightarrow> string" where
  "rewrite_bare after_cr [] = []"
| "rewrite_bare after_cr (c # cs) =
     (if c = LF \<and> \<not> after_cr then CR # LF # rewrite_bare False cs
      else c # rewrite_bare (c = CR) cs)"

definition bare_lf_to_crlf :: "string \<Rightarrow> string" where
  "bare_lf_to_crlf s = rewrite_bare False s"

text \<open>A text has a line feed directly after a carriage return.\<close>

fun has_crlf :: "string \<Rightarrow> bool" where
  "has_crlf (a # b # cs) = ((a = CR \<and> b = LF) \<or> has_crlf (b # cs))"
| "has_crlf _ = False"


subsection \<open>Concrete boards and runs\<close>

text \<open>
  An RP2040 board whose selected flash layout puts the filesystem at \<^verbatim>\<open>0x300000\<close> to
  \<^verbatim>\<open>0x400000\<close>, on a Linux host where every tool runs and exits with code \<open>0\<close>.
\<close>

definition pico_board :: board_details where
  "pico_board =
     \<lparr>buildProperties =
        [(''menu.flash.4194304_1048576.build.fs_start'', Some ''0x300000''),
         (''menu.flash.4194304_1048576.build.fs_end'', Some ''0x400000''),
         (''runtime.tools.pqt-mklittlefs.path'', Some ''/opt/pqt/mklittlefs''),
         (''runtime.tools.pqt-python3.path'', Some ''/opt/pqt/python3''),
         (''runtime.platform.path'', Some ''/opt/rp2040'')],
      configOptions =
        [\<lparr>option = ''flash'',
          values_of = [\<lparr>val = ''2097152_0'', selected = False\<rparr>,
                       \<lparr>val = ''4194304_1048576'', selected = True\<rparr>]\<rparr>]\<rparr>"

definition pico_name :: string where
  "pico_name = ''vendor:rp2040:boardX''"

definition pico_env :: env where
  "pico_env =
     \<lparr>ctx = \<lparr>boardDetails = Some pico_board, fqbn = Some pico_name,
              sketchPath = Some ''/home/u/blink'',
              port = Some \<lparr>address = ''/dev/ttyACM0'', protocol = ''serial''\<rparr>\<rparr>,
      platform = ''linux'',
      writerReady = (\<lambda>k. 2 \<le> k),
      existsSync = (\<lambda>path. path = ''/home/u/blink/data''),
      tmpName = ''/tmp/tmp-4711'',
      spawn = (\<lambda>cmd args. Closed [''done'' @ [LF]] [] (Some 0))\<rparr>"

text \<open>The same board with no flash layout selected.\<close>

definition unselected_board :: board_details where
  "unselected_board =
     pico_board\<lparr>configOptions :=
        [\<lparr>option = ''flash'',
          values_of = [\<lparr>val = ''2097152_0'', selected = False\<rparr>,
                       \<lparr>val = ''4194304_1048576'', selected = False\<rparr>]\<rparr>]\<rparr>"

definition unselected_env :: env where
  "unselected_env = pico_env\<lparr>ctx := (ctx pico_env)\<lparr>boardDetails := Some unselected_board\<rparr>\<rparr>"

text \<open>
  An ESP8266 board with the filesystem at \<^verbatim>\<open>0x200000\<close> to \<^verbatim>\<open>0x2FB000\<close> and the baud rate
  460800 selected, on a Windows host with no tool directory in the build properties.
\<close>

definition esp_board :: board_details where
  "esp_board =
     \<lparr>buildProperties =
        [(''menu.eesz.4M1M.build.spiffs_start'', Some ''0x200000''),
         (''menu.eesz.4M1M.build.spiffs_end'', Some ''0x2FB000''),
         (''menu.eesz.4M1M.build.spiffs_pagesize'', Some ''256''),
         (''menu.eesz.4M1M.build.spiffs_blocksize'', Some ''8192''),
         (''runtime.platform.path'', Some ''C:/esp8266'')],
      configOptions =
        [\<lparr>option = ''baud'',
          values_of = [\<lparr>val = ''115200'', selected = False\<rparr>,
                       \<lparr>val = ''460800'', selected = True\<rparr>]\<rparr>,
         \<lparr>option = ''eesz'',
          values_of = [\<lparr>val = ''4M1M'', selected = True\<rparr>,
                       \<lparr>val = ''4M2M'', selected = False\<rparr>]\<rparr>]\<rparr>"

definition esp_name :: string where
  "esp_name = ''vendor:esp8266:boardY''"

definition esp_port :: port_info where
  "esp_port = \<lparr>address = ''COM3'', protocol = ''serial''\<rparr>"

definition esp_env :: env where
  "esp_env =
     \<lparr>ctx = \<lparr>boardDetails = Some esp_board, fqbn = Some esp_name,
              sketchPath = Some ''C:/sketch'', port = Some esp_port\<rparr>,
      platform = ''win32'',
      writerReady = (\<lambda>k. True),
      existsSync = (\<lambda>path. True),
      tmpName = ''C:/tmp/tmp-7'',
      spawn = (\<lambda>cmd args. Closed [] [] (Some 0))\<rparr>"

text \<open>The RP2040 run in which every process exits with code \<open>2\<close>.\<close>

definition failing_build_env :: env where
  "failing_build_env = pico_env\<lparr>spawn := (\<lambda>cmd args. Closed [] [''no space'' @ [LF]] (Some 2))\<rparr>"

text \<open>A board description with two flash layouts marked selected.\<close>

definition twice_selected_board :: board_details where
  "twice_selected_board =
     \<lparr>buildProperties =
        [(''menu.flash.A.build.fs_start'', Some ''4096''),
         (''menu.flash.A.build.fs_end'', Some ''8192''),
         (''menu.flash.B.build.fs_start'', Some ''65536''),
         (''menu.flash.B.build.fs_end'', Some ''131072'')],
      configOptions =
        [\<lparr>option = ''flash'',
          values_of = [\<lparr>val = ''A'', selected = True\<rparr>, \<lparr>val = ''B'', selected = True\<rparr>]\<rparr>]\<rparr>"



text \<open>The RP2040 run with no port selected.\<close>

definition no_port_env :: env where
  "no_port_env = pico_env\<lparr>ctx := (ctx pico_env)\<lparr>port := None\<rparr>\<rparr>"

text \<open>The RP2040 run on a host where no process can be spawned.\<close>

definition missing_builder_env :: env where
  "missing_builder_env = pico_env\<lparr>spawn := (\<lambda>cmd args. SpawnError)\<rparr>"

text \<open>The RP2040 run a second time: the same inputs, another temporary name.\<close>

definition second_env :: env where
  "second_env = pico_env\<lparr>tmpName := ''/tmp/tmp-4712''\<rparr>"

section \<open>Properties of the stages\<close>

subsection \<open>The wait for the terminal\<close>

text \<open>The loop of line 68 ends as soon as the flag is seen true, and only then.\<close>

lemma await_writer_now: "ready k \<Longrightarrow> await_writer ready k = Some k"
  by (subst await_writer.simps) simp

lemma await_writer_later: "\<not> ready k \<Longrightarrow> await_writer ready k = await_writer ready (Suc k)"
  by (subst await_writer.simps) simp

lemma await_writer_reaches: "ready (k + d) \<Longrightarrow> \<exists>n. await_writer ready k = Some n"
proof (induction d arbitrary: k)
  case 0
  then show ?case by (simp add: await_writer_now)
next
  case (Suc d)
  show ?case
  proof (cases "ready k")
    case True
    then show ?thesis by (simp add: await_writer_now)
  next
    case False
    from Suc.prems have "ready (Suc k + d)" by simp
    then obtain n where "await_writer ready (Suc k) = Some n"
      using Suc.IH by blast
    with False show ?thesis by (simp add: await_writer_later)
  qed
qed

subsection \<open>The scan of the options\<close>

text \<open>
  A selected value overwrites all that an earlier one had set, so each of the two inner
  loops leaves what its last selected value wrote; the two loops write different locals.
\<close>

lemma size_item_overwrites:
  "selected itm \<Longrightarrow> size_item fam bd itm (size_item fam bd itm' c) = size_item fam bd itm c"
  by (simp add: size_item_def)

lemma fold_size_item:
  "fold (size_item fam bd) vs c =
     (if filter selected vs = [] then c else size_item fam bd (last (filter selected vs)) c)"
proof (induction vs rule: rev_induct)
  case Nil
  show ?case by simp
next
  case (snoc v vs)
  show ?case
  proof (cases "selected v")
    case True
    then show ?thesis using snoc by (simp add: size_item_overwrites)
  next
    case False
    then have "size_item fam bd v (fold (size_item fam bd) vs c) = fold (size_item fam bd) vs c"
      by (simp add: size_item_def)
    with False snoc show ?thesis by simp
  qed
qed

lemma baud_item_overwrites:
  "selected itm \<Longrightarrow> baud_item itm (baud_item itm' c) = baud_item itm c"
  by (simp add: baud_item_def)

lemma fold_baud_item:
  "fold baud_item vs c =
     (if filter selected vs = [] then c else baud_item (last (filter selected vs)) c)"
proof (induction vs rule: rev_induct)
  case Nil
  show ?case by simp
next
  case (snoc v vs)
  show ?case
  proof (cases "selected v")
    case True
    then show ?thesis using snoc by (simp add: baud_item_overwrites)
  next
    case False
    then have "baud_item v (fold baud_item vs c) = fold baud_item vs c"
      by (simp add: baud_item_def)
    with False snoc show ?thesis by simp
  qed
qed

lemma optSeek_not_baud: "optSeek fam \<noteq> ''baud''"
  by (simp add: optSeek_def)

lemma selected_in_snoc:
  "selected_in name (opts @ [opt]) =
     selected_in name opts @ (if option opt = name then filter selected (values_of opt) else [])"
  by (simp add: selected_in_def)

lemma selected_in_selected: "v \<in> set (selected_in name opts) \<Longrightarrow> selected v"
  by (auto simp: selected_in_def)

lemma last_selected: "selected_in name opts \<noteq> [] \<Longrightarrow> selected (last (selected_in name opts))"
  using selected_in_selected last_in_set by blast

lemma filter_selected_in: "filter selected (selected_in name opts) = selected_in name opts"
  by (simp add: filter_id_conv selected_in_selected)

lemma fold_size_item_filter:
  "fold (size_item fam bd) (filter selected vs) c = fold (size_item fam bd) vs c"
  by (induction vs arbitrary: c) (simp_all add: size_item_def)

lemma fold_baud_item_filter:
  "fold baud_item (filter selected vs) c = fold baud_item vs c"
  by (induction vs arbitrary: c) (simp_all add: baud_item_def)

lemma size_baud_commute:
  "size_item fam bd itm (baud_item itm' c) = baud_item itm' (size_item fam bd itm c)"
  by (simp add: size_item_def baud_item_def)

lemma size_fold_baud_commute:
  "size_item fam bd itm (fold baud_item bs c) = fold baud_item bs (size_item fam bd itm c)"
  by (induction bs arbitrary: c) (simp_all add: size_baud_commute)

lemma fold_size_fold_baud_commute:
  "fold (size_item fam bd) vs (fold baud_item bs c) = fold baud_item bs (fold (size_item fam bd) vs c)"
  by (induction vs arbitrary: c) (simp_all add: size_fold_baud_commute)

lemma fold_scan_option:
  "fold (scan_option fam bd) opts c =
     fold baud_item (selected_in ''baud'' opts)
       (fold (size_item fam bd) (selected_in (optSeek fam) opts) c)"
proof (induction opts rule: rev_induct)
  case Nil
  show ?case by (simp add: selected_in_def)
next
  case (snoc opt opts)
  consider (size) "option opt = optSeek fam" | (baud) "option opt = ''baud''"
    | (other) "option opt \<noteq> optSeek fam" "option opt \<noteq> ''baud''"
    by blast
  then show ?case
  proof cases
    case size
    then have "option opt \<noteq> ''baud''" by (simp add: optSeek_not_baud)
    with size snoc show ?thesis
      by (simp add: selected_in_snoc scan_option_def fold_size_item_filter
          fold_size_fold_baud_commute)
  next
    case baud
    then have "option opt \<noteq> optSeek fam" using optSeek_not_baud [of fam] by simp
    with baud snoc show ?thesis
      by (simp add: selected_in_snoc scan_option_def fold_baud_item_filter)
  next
    case other
    with snoc show ?thesis
      by (simp add: selected_in_snoc scan_option_def)
  qed
qed

lemma resolve_last:
  "resolve fam bd =
     (let ss = selected_values (optSeek fam) bd;
          bs = selected_values ''baud'' bd;
          c = (if ss = [] then initial_config else size_item fam bd (last ss) initial_config)
      in if bs = [] then c else baud_item (last bs) c)"
  by (simp add: resolve_def fold_scan_option selected_values_def fold_size_item fold_baud_item
      filter_selected_in Let_def)

lemma resolve_unselected:
  "selected_values (optSeek fam) bd = [] \<Longrightarrow>
     fsStart (resolve fam bd) = Num 0 \<and> fsEnd (resolve fam bd) = Num 0
     \<and> page (resolve fam bd) = Num 0 \<and> blocksize (resolve fam bd) = Num 0"
  by (simp add: resolve_last baud_item_def initial_config_def Let_def)

lemma resolve_selected:
  assumes "selected_values (optSeek fam) bd \<noteq> []"
  shows "fsStart (resolve fam bd) =
           Number_js (property bd (menustr fam (last (selected_values (optSeek fam) bd)) @ startMarker fam))"
    and "fsEnd (resolve fam bd) =
           Number_js (property bd (menustr fam (last (selected_values (optSeek fam) bd)) @ endMarker fam))"
    and "page (resolve fam bd) =
           (if pico fam then Num 256
            else Number_js (property bd (menustr fam (last (selected_values (optSeek fam) bd)) @ ''spiffs_pagesize'')))"
    and "blocksize (resolve fam bd) =
           (if pico fam then Num 4096
            else Number_js (property bd (menustr fam (last (selected_values (optSeek fam) bd)) @ ''spiffs_blocksize'')))"
proof -
  have "selected (last (selected_values (optSeek fam) bd))"
    using assms by (simp add: selected_values_def last_selected)
  then show "fsStart (resolve fam bd) =
           Number_js (property bd (menustr fam (last (selected_values (optSeek fam) bd)) @ startMarker fam))"
    and "fsEnd (resolve fam bd) =
           Number_js (property bd (menustr fam (last (selected_values (optSeek fam) bd)) @ endMarker fam))"
    and "page (resolve fam bd) =
           (if pico fam then Num 256
            else Number_js (property bd (menustr fam (last (selected_values (optSeek fam) bd)) @ ''spiffs_pagesize'')))"
    and "blocksize (resolve fam bd) =
           (if pico fam then Num 4096
            else Number_js (property bd (menustr fam (last (selected_values (optSeek fam) bd)) @ ''spiffs_blocksize'')))"
    using assms by (simp_all add: resolve_last baud_item_def size_item_def Let_def)
qed

lemma resolve_uploadSpeed:
  "uploadSpeed (resolve fam bd) =
     (if selected_values ''baud'' bd = [] then Num 115200
      else Number_string (val (last (selected_values ''baud'' bd))))"
proof (cases "selected_values ''baud'' bd = []")
  case True
  then show ?thesis
    by (simp add: resolve_last size_item_def initial_config_def Let_def)
next
  case False
  then have "selected (last (selected_values ''baud'' bd))"
    by (simp add: selected_values_def last_selected)
  with False show ?thesis
    by (simp add: resolve_last baud_item_def Let_def)
qed

subsection \<open>Events and outcomes of the stages\<close>

lemma spawns_append: "spawns (xs @ ys) = spawns xs @ spawns ys"
  by (induction xs rule: spawns.induct) simp_all

lemma lookups_append: "lookups (xs @ ys) = lookups xs @ lookups ys"
  by (induction xs rule: lookups.induct) simp_all

lemma spawns_forward: "spawns (forward chunks) = []"
  by (induction chunks) (simp_all add: forward_def)

lemma lookups_forward: "lookups (forward chunks) = []"
  by (induction chunks) (simp_all add: forward_def)

lemma events_emit: "events (emit es r) = es @ events r"
  by (simp add: emit_def)

lemma outcome_emit: "outcome (emit es r) = outcome r"
  by (simp add: emit_def)

lemma events_stop: "events (stop es out) = es"
  by (simp add: stop_def)

lemma outcome_stop: "outcome (stop es out) = out"
  by (simp add: stop_def)

lemmas run_simps = events_emit outcome_emit events_stop outcome_stop spawns_append lookups_append
  spawns_forward lookups_forward

lemma spawns_upload_stage:
  "spawns (events (upload_stage e fam g serialPort py imageFile)) =
     [(py, uploadOpts (ctx e) fam g serialPort imageFile)]"
  by (simp add: upload_stage_def Let_def run_simps split: proc_result.split option.split)

lemma spawns_build_stage:
  "spawns (events (build_stage e fam g folder mk serialPort py)) =
     (mk, buildOpts folder g (tmpName e @ ''.littlefs.bin''))
     # (case spawn e mk (buildOpts folder g (tmpName e @ ''.littlefs.bin'')) of
          SpawnError \<Rightarrow> []
        | Closed out err exitCode \<Rightarrow>
            (case failure exitCode of
               Some n \<Rightarrow> []
             | None \<Rightarrow> [(py, uploadOpts (ctx e) fam g serialPort (tmpName e @ ''.littlefs.bin''))]))"
  by (simp add: build_stage_def Let_def run_simps spawns_upload_stage
      split: proc_result.split option.split)

lemma outcome_upload_stage:
  "outcome (upload_stage e fam g serialPort py imageFile) =
     (case spawn e py (uploadOpts (ctx e) fam g serialPort imageFile) of
        SpawnError \<Rightarrow> UnhandledSpawnError
      | Closed out err exitCode \<Rightarrow>
          (case failure exitCode of Some n \<Rightarrow> UploadFailure n | None \<Rightarrow> Completed))"
  by (simp add: upload_stage_def Let_def run_simps split: proc_result.split option.split)

lemma outcome_build_stage:
  "outcome (build_stage e fam g folder mk serialPort py) =
     (case spawn e mk (buildOpts folder g (tmpName e @ ''.littlefs.bin'')) of
        SpawnError \<Rightarrow> UnhandledSpawnError
      | Closed out err exitCode \<Rightarrow>
          (case failure exitCode of
             Some n \<Rightarrow> BuildFailure n
           | None \<Rightarrow> outcome (upload_stage e fam g serialPort py (tmpName e @ ''.littlefs.bin''))))"
  by (simp add: build_stage_def Let_def run_simps split: proc_result.split option.split)

text \<open>Every way through the handler, return by return.\<close>

lemma uploadLittleFS_cases:
  assumes "uploadLittleFS e = Some r"
  obtains
    (no_board) "boardDetails (ctx e) = None \<or> fqbn (ctx e) = None"
      "r = stop [ShowErrorMessage ''Board details not available. Compile the sketch once.'']
                MissingBoardDetails"
  | (ready) bd name where "boardDetails (ctx e) = Some bd" "fqbn (ctx e) = Some name"
      "r = pipeline e bd name"
  using assms by (auto simp: uploadLittleFS_def split: option.splits)

lemma uploadLittleFS_pipeline:
  "uploadLittleFS e = Some r \<Longrightarrow> boardDetails (ctx e) = Some bd \<Longrightarrow> fqbn (ctx e) = Some name
   \<Longrightarrow> r = pipeline e bd name"
  by (auto simp: uploadLittleFS_def split: option.splits)

lemma uploadLittleFS_returns:
  "writerReady e k \<Longrightarrow> \<exists>r. uploadLittleFS e = Some r"
  using await_writer_reaches [of "writerReady e" 0 k]
  by (auto simp: uploadLittleFS_def split: option.splits)

lemma pipeline_cases:
  obtains
    (no_folder) "\<not> existsSync e (dataFolder (ctx e))"
      "pipeline e bd name =
         stop (head_events @ [Fire (''ERROR: No data folder found'' @ crlf)]) MissingDataFolder"
  | (no_family) "existsSync e (dataFolder (ctx e))" "family_of name = None"
      "pipeline e bd name =
         stop (head_events @ [Fire (''ERROR: Only Arduino-Pico RP2040 and ESP8266 supported.'' @ crlf)])
              UnsupportedBoard"
  | (no_fs) fam where "existsSync e (dataFolder (ctx e))" "family_of name = Some fam"
      "no_filesystem (resolve fam bd)"
      "pipeline e bd name =
         stop (head_events @ [Fire (''ERROR: No filesystem specified, check flash size menu'' @ crlf)])
              MissingFilesystemConfig"
  | (located) fam where "existsSync e (dataFolder (ctx e))" "family_of name = Some fam"
      "\<not> no_filesystem (resolve fam bd)"
      "pipeline e bd name =
         emit head_events (locate_stage e fam (resolve fam bd) (dataFolder (ctx e)))"
  by (cases "family_of name"; cases "existsSync e (dataFolder (ctx e))";
      fastforce simp: pipeline_def head_events_def emit_def stop_def)

lemma locate_stage_cases:
  obtains
    (no_port) "port (ctx e) = None"
      "locate_stage e fam g folder =
         stop [FindTool (mklittlefs_key fam), ReadPort,
               Fire (''ERROR: No port specified, check IDE menus.'' @ crlf)] UnsupportedPort"
  | (not_serial) p where "port (ctx e) = Some p" "protocol p \<noteq> ''serial''"
      "locate_stage e fam g folder =
         stop [FindTool (mklittlefs_key fam), ReadPort,
               Fire (''ERROR: Only serial port upload supported at this time.'' @ crlf)]
              UnsupportedPort"
  | (serial) p where "port (ctx e) = Some p" "protocol p = ''serial''"
      "locate_stage e fam g folder =
         emit [FindTool (mklittlefs_key fam), ReadPort, FindTool (python3_key fam)]
           (build_stage e fam g folder (mklittlefs e fam) (address p) (python3 e fam))"
  by (cases "port (ctx e)"; fastforce simp: locate_stage_def emit_def stop_def)

subsection \<open>The geometry test\<close>

lemma no_filesystem_iff:
  "no_filesystem c =
     (fsStart c \<in> {NaN, Num 0} \<or> fsEnd c \<in> {NaN, Num 0} \<or> page c \<in> {NaN, Num 0}
      \<or> blocksize c \<in> {NaN, Num 0}
      \<or> (\<exists>a b. fsStart c = Num a \<and> fsEnd c = Num b \<and> b \<le> a))"
  by (cases "fsStart c"; cases "fsEnd c"; cases "page c"; cases "blocksize c")
     (auto simp: no_filesystem_def)

lemma filesystem_size:
  assumes "\<not> no_filesystem c"
  obtains a b p q where "fsStart c = Num a" "fsEnd c = Num b" "page c = Num p" "blocksize c = Num q"
    "a \<noteq> 0" "b \<noteq> 0" "p \<noteq> 0" "q \<noteq> 0" "a < b"
  using assms
  by (cases "fsStart c"; cases "fsEnd c"; cases "page c"; cases "blocksize c")
     (auto simp: no_filesystem_def)

lemma outcome_build_stage_not_config:
  "outcome (build_stage e fam g folder mk serialPort py) \<noteq> MissingFilesystemConfig"
  by (simp add: outcome_build_stage outcome_upload_stage split: proc_result.split option.split)

lemma outcome_locate_stage_not_config:
  "outcome (locate_stage e fam g folder) \<noteq> MissingFilesystemConfig"
  by (cases rule: locate_stage_cases [of e fam g folder])
     (simp_all add: run_simps outcome_build_stage_not_config)

lemma pipeline_located:
  assumes "existsSync e (dataFolder (ctx e))" "family_of name = Some fam"
    "\<not> no_filesystem (resolve fam bd)"
  shows "pipeline e bd name = emit head_events (locate_stage e fam (resolve fam bd) (dataFolder (ctx e)))"
  using assms by (simp add: pipeline_def head_events_def)

lemma pipeline_no_filesystem:
  assumes "existsSync e (dataFolder (ctx e))" "family_of name = Some fam"
    "no_filesystem (resolve fam bd)"
  shows "pipeline e bd name =
           stop (head_events @ [Fire (''ERROR: No filesystem specified, check flash size menu'' @ crlf)])
                MissingFilesystemConfig"
  using assms by (simp add: pipeline_def head_events_def emit_def stop_def)

lemma spawns_head_events: "spawns head_events = []"
  by (simp add: head_events_def)

lemma lookups_head_events: "lookups head_events = []"
  by (simp add: head_events_def)

text \<open>A run that has spawned a process has passed every check before the build stage.\<close>

lemma built_run:
  assumes "uploadLittleFS e = Some r" and "spawns (events r) \<noteq> []"
  obtains bd name fam p where
    "boardDetails (ctx e) = Some bd" "fqbn (ctx e) = Some name"
    "existsSync e (dataFolder (ctx e))" "family_of name = Some fam"
    "\<not> no_filesystem (resolve fam bd)" "port (ctx e) = Some p" "protocol p = ''serial''"
    "r = emit (head_events @ [FindTool (mklittlefs_key fam), ReadPort, FindTool (python3_key fam)])
           (build_stage e fam (resolve fam bd) (dataFolder (ctx e)) (mklittlefs e fam) (address p)
              (python3 e fam))"
  using assms(1)
proof (cases rule: uploadLittleFS_cases)
  case no_board
  with assms(2) show ?thesis by (simp add: run_simps)
next
  case (ready bd name)
  show ?thesis
  proof (cases rule: pipeline_cases [of e bd name])
    case no_folder
    with ready assms(2) show ?thesis by (simp add: run_simps spawns_head_events)
  next
    case no_family
    with ready assms(2) show ?thesis by (simp add: run_simps spawns_head_events)
  next
    case (no_fs fam)
    with ready assms(2) show ?thesis by (simp add: run_simps spawns_head_events)
  next
    case (located fam)
    show ?thesis
    proof (cases rule: locate_stage_cases [of e fam "resolve fam bd" "dataFolder (ctx e)"])
      case no_port
      with ready located assms(2) show ?thesis by (simp add: run_simps spawns_head_events)
    next
      case (not_serial p)
      with ready located assms(2) show ?thesis by (simp add: run_simps spawns_head_events)
    next
      case (serial p)
      with ready located have
        "r = emit (head_events @ [FindTool (mklittlefs_key fam), ReadPort, FindTool (python3_key fam)])
           (build_stage e fam (resolve fam bd) (dataFolder (ctx e)) (mklittlefs e fam) (address p)
              (python3 e fam))"
        by (simp add: emit_def)
      with ready located serial that show ?thesis by blast
    qed
  qed
qed

lemma spawns_built_run:
  "spawns (events (emit (head_events @ [FindTool k, ReadPort, FindTool k']) r)) = spawns (events r)"
  by (simp add: run_simps spawns_head_events)

lemma resolve_pico_sizes:
  assumes "\<not> no_filesystem (resolve RP2040 bd)"
  shows "page (resolve RP2040 bd) = Num 256 \<and> blocksize (resolve RP2040 bd) = Num 4096"
proof (cases "selected_values (optSeek RP2040) bd = []")
  case True
  then have "page (resolve RP2040 bd) = Num 0"
    using resolve_unselected by blast
  with assms show ?thesis by (simp add: no_filesystem_def)
next
  case False
  then show ?thesis by (simp add: resolve_selected pico_def)
qed

lemma events_build_failure:
  assumes "spawn e mk (buildOpts folder g (tmpName e @ ''.littlefs.bin'')) = Closed out err (Some code)"
    and "code \<noteq> 0"
  shows "build_stage e fam g folder mk serialPort py =
           stop ([Fire (''Building LittleFS filesystem'' @ crlf),
                  Fire (mk @ '' '' @ join_space (buildOpts folder g (tmpName e @ ''.littlefs.bin'')) @ crlf),
                  Spawn mk (buildOpts folder g (tmpName e @ ''.littlefs.bin''))]
                 @ forward out @ forward err
                 @ [Fire (''ERROR:  Mklittlefs failed, error code: '' @ String_js (Num code) @ crlf @ crlf)])
                (BuildFailure code)"
  using assms by (simp add: build_stage_def Let_def failure_def emit_def stop_def)

subsection \<open>Line ends\<close>

lemma replace_lf_concat:
  "replace_lf s = concat (map (\<lambda>c. if c = LF then [CR, LF] else [c]) s)"
  by (induction s) simp_all

lemma CR_not_LF: "CR \<noteq> LF"
  by (simp add: CR_def LF_def)

lemma rewrite_bare_agrees:
  "(rewrite_bare after_cr s = replace_lf s) =
     (\<not> (after_cr \<and> s \<noteq> [] \<and> hd s = LF) \<and> \<not> has_crlf s)"
proof (induction s arbitrary: after_cr)
  case Nil
  show ?case by simp
next
  case (Cons c cs)
  show ?case
  proof (cases "c = LF")
    case True
    then show ?thesis
      using Cons [of False] CR_not_LF by (cases cs) auto
  next
    case False
    then show ?thesis
      using Cons [of "c = CR"] by (cases cs) auto
  qed
qed

subsection \<open>Tool lookups around the port checks\<close>

lemma lookups_upload_stage:
  "lookups (events (upload_stage e fam g serialPort py imageFile)) = [''runtime.platform.path'']"
  by (simp add: upload_stage_def Let_def run_simps split: proc_result.split option.split)

lemma lookups_build_stage:
  "lookups (events (build_stage e fam g folder mk serialPort py)) =
     (case spawn e mk (buildOpts folder g (tmpName e @ ''.littlefs.bin'')) of
        SpawnError \<Rightarrow> []
      | Closed out err exitCode \<Rightarrow>
          (case failure exitCode of Some n \<Rightarrow> [] | None \<Rightarrow> [''runtime.platform.path'']))"
  by (simp add: build_stage_def Let_def run_simps lookups_upload_stage
      split: proc_result.split option.split)

lemma before_port_located:
  "before_port (events (emit head_events (locate_stage e fam g folder))) =
     head_events @ [FindTool (mklittlefs_key fam)]"
  by (cases rule: locate_stage_cases [of e fam g folder])
     (simp_all add: before_port_def run_simps head_events_def)

lemma after_port_located:
  "after_port (events (emit head_events (locate_stage e fam g folder))) =
     ReadPort # tl (tl (events (locate_stage e fam g folder)))"
  by (cases rule: locate_stage_cases [of e fam g folder])
     (simp_all add: after_port_def run_simps head_events_def)

lemma located_run:
  assumes "uploadLittleFS e = Some r" and "ReadPort \<in> set (events r)"
  obtains bd name fam where
    "boardDetails (ctx e) = Some bd" "fqbn (ctx e) = Some name"
    "existsSync e (dataFolder (ctx e))" "family_of name = Some fam"
    "\<not> no_filesystem (resolve fam bd)"
    "r = emit head_events (locate_stage e fam (resolve fam bd) (dataFolder (ctx e)))"
  using assms(1)
proof (cases rule: uploadLittleFS_cases)
  case no_board
  with assms(2) show ?thesis by (simp add: run_simps)
next
  case (ready bd name)
  show ?thesis
  proof (cases rule: pipeline_cases [of e bd name])
    case no_folder
    with ready assms(2) show ?thesis by (simp add: run_simps head_events_def)
  next
    case no_family
    with ready assms(2) show ?thesis by (simp add: run_simps head_events_def)
  next
    case (no_fs fam)
    with ready assms(2) show ?thesis by (simp add: run_simps head_events_def)
  next
    case (located fam)
    with ready that show ?thesis by simp
  qed
qed

subsection \<open>Processes that cannot be spawned\<close>

lemma build_stage_spawn_error:
  assumes "spawn e mk (buildOpts folder g (tmpName e @ ''.littlefs.bin'')) = SpawnError"
  shows "build_stage e fam g folder mk serialPort py =
           stop [Fire (''Building LittleFS filesystem'' @ crlf),
                 Fire (mk @ '' '' @ join_space (buildOpts folder g (tmpName e @ ''.littlefs.bin'')) @ crlf),
                 Spawn mk (buildOpts folder g (tmpName e @ ''.littlefs.bin''))]
                UnhandledSpawnError"
  using assms by (simp add: build_stage_def Let_def emit_def stop_def)

lemma upload_stage_spawn_error:
  assumes "spawn e py (uploadOpts (ctx e) fam g serialPort imageFile) = SpawnError"
  shows "upload_stage e fam g serialPort py imageFile =
           stop [FindTool ''runtime.platform.path'',
                 Fire (crlf @ crlf @ ''Uploading LittleFS filesystem'' @ crlf),
                 Fire (py @ '' '' @ join_space (uploadOpts (ctx e) fam g serialPort imageFile) @ crlf),
                 Spawn py (uploadOpts (ctx e) fam g serialPort imageFile)]
                UnhandledSpawnError"
  using assms by (simp add: upload_stage_def Let_def emit_def stop_def)

lemma build_stage_passed:
  assumes "spawn e mk (buildOpts folder g (tmpName e @ ''.littlefs.bin'')) = Closed out err exitCode"
    and "failure exitCode = None"
  shows "build_stage e fam g folder mk serialPort py =
           emit ([Fire (''Building LittleFS filesystem'' @ crlf),
                  Fire (mk @ '' '' @ join_space (buildOpts folder g (tmpName e @ ''.littlefs.bin'')) @ crlf),
                  Spawn mk (buildOpts folder g (tmpName e @ ''.littlefs.bin''))]
                 @ forward out @ forward err)
             (upload_stage e fam g serialPort py (tmpName e @ ''.littlefs.bin''))"
  using assms by (simp add: build_stage_def Let_def emit_def)

lemma build_stage_spawn_failure:
  assumes "(cmd, args) \<in> set (spawns (events (build_stage e fam g folder mk serialPort py)))"
    and "spawn e cmd args = SpawnError"
  shows "outcome (build_stage e fam g folder mk serialPort py) = UnhandledSpawnError
       \<and> last (events (build_stage e fam g folder mk serialPort py)) = Spawn cmd args"
proof (cases "spawn e mk (buildOpts folder g (tmpName e @ ''.littlefs.bin''))")
  case SpawnError
  with assms(1) have "cmd = mk" "args = buildOpts folder g (tmpName e @ ''.littlefs.bin'')"
    by (simp_all add: spawns_build_stage)
  with build_stage_spawn_error [OF SpawnError] show ?thesis
    by (simp add: run_simps)
next
  case (Closed out err exitCode)
  with assms have up: "failure exitCode = None" "cmd = py"
    "args = uploadOpts (ctx e) fam g serialPort (tmpName e @ ''.littlefs.bin'')"
    by (auto simp: spawns_build_stage split: option.splits)
  with assms(2) have "spawn e py (uploadOpts (ctx e) fam g serialPort (tmpName e @ ''.littlefs.bin''))
      = SpawnError"
    by simp
  from upload_stage_spawn_error [OF this] build_stage_passed [OF Closed up(1)] up(2,3)
  show ?thesis
    by (simp add: run_simps)
qed

subsection \<open>Numbers written and read back\<close>





















subsection \<open>The concrete runs, evaluated\<close>

lemmas num_eval = Number_string_def trim_def strip.simps find.simps StrWhiteSpaceChar_def
  StrNumericLiteral_def StrUnsignedDecimalLiteral_def mantissa_def exponent_def
  no_exponent_mark_def is_decimal_digit_def integer_value_def literal_def of_literal_def
  digit_value_def Let_def

lemma numbers_read:
  "Number_string ''0x300000'' = Num 3145728" "Number_string ''0x400000'' = Num 4194304"
  "Number_string ''0x200000'' = Num 2097152" "Number_string ''0x2FB000'' = Num 3125248"
  "Number_string ''256'' = Num 256" "Number_string ''8192'' = Num 8192"
  "Number_string ''4096'' = Num 4096" "Number_string ''65536'' = Num 65536"
  "Number_string ''131072'' = Num 131072" "Number_string ''460800'' = Num 460800"
  "Number_string ''115200'' = Num 115200" "Number_string ''1028096'' = Num 1028096"
  "Number_string ''3M'' = NaN"
  by (simp_all add: num_eval)

lemmas js_defs = Number_js_def numbers_read decimal.simps startsWith_def CR_def LF_def ESC_def
  crlf_def

lemmas resolve_defs = resolve_def scan_option_def size_item_def baud_item_def initial_config_def
  menustr_def optSeek_def startMarker_def endMarker_def pico_def property_def no_filesystem_def
  family_of_def
lemmas stage_defs = pipeline_def locate_stage_def build_stage_def upload_stage_def buildOpts_def
  uploadOpts_def mklittlefs_def python3_def mklittlefs_key_def python3_key_def ext_def under_def
  findTool_def dataFolder_def emit_def stop_def forward_def failure_def clear_terminal_def
  head_events_def Let_def

lemma pico_returns: "uploadLittleFS pico_env = Some (pipeline pico_env pico_board pico_name)"
  by (simp add: uploadLittleFS_def pico_env_def await_writer_now await_writer_later)

lemma pico_family: "family_of pico_name = Some RP2040"
  by (simp add: pico_name_def family_of_def)

lemma pico_resolve:
  "resolve RP2040 pico_board =
     \<lparr>fsStart = Num 3145728, fsEnd = Num 4194304, page = Num 256, blocksize = Num 4096,
      uploadSpeed = Num 115200\<rparr>"
  by (simp add: pico_board_def resolve_defs js_defs)

lemma pico_spawns:
  "spawns (events (pipeline pico_env pico_board pico_name)) =
     [(''/opt/pqt/mklittlefs/mklittlefs'',
       [''-c'', ''/home/u/blink/data'', ''-p'', ''256'', ''-b'', ''4096'', ''-s'', ''1048576'',
        ''/tmp/tmp-4711.littlefs.bin'']),
      (''/opt/pqt/python3/python3'',
       [''/opt/rp2040/tools/uf2conv.py'', ''--base'', ''3145728'', ''--serial'', ''/dev/ttyACM0'',
        ''--family'', ''RP2040'', ''/tmp/tmp-4711.littlefs.bin''])]"
  by (simp add: pico_env_def pico_board_def pico_name_def stage_defs resolve_defs js_defs)

lemma pico_outcome: "outcome (pipeline pico_env pico_board pico_name) = Completed"
  by (simp add: pico_env_def pico_board_def pico_name_def stage_defs resolve_defs js_defs)

lemma unselected_returns:
  "uploadLittleFS unselected_env = Some (pipeline unselected_env unselected_board pico_name)"
  by (simp add: uploadLittleFS_def unselected_env_def pico_env_def await_writer_now
      await_writer_later)

lemma unselected_resolve:
  "resolve RP2040 unselected_board =
     \<lparr>fsStart = Num 0, fsEnd = Num 0, page = Num 0, blocksize = Num 0, uploadSpeed = Num 115200\<rparr>"
  by (simp add: unselected_board_def pico_board_def resolve_defs js_defs)

lemma esp_returns: "uploadLittleFS esp_env = Some (pipeline esp_env esp_board esp_name)"
  by (simp add: uploadLittleFS_def esp_env_def await_writer_now)

lemma esp_family: "family_of esp_name = Some ESP8266"
  by (simp add: esp_name_def family_of_def)


lemma esp_spawns:
  "spawns (events (pipeline esp_env esp_board esp_name)) =
     [(''mklittlefs.exe'',
       [''-c'', ''C:/sketch/data'', ''-p'', ''256'', ''-b'', ''8192'', ''-s'', ''1028096'',
        ''C:/tmp/tmp-7.littlefs.bin'']),
      (''python3.exe'',
       [''C:/esp8266/tools/upload.py'', ''--chip'', ''esp8266'', ''--port'', ''COM3'',
        ''--baud'', ''460800'', ''write_flash'', ''2097152'', ''C:/tmp/tmp-7.littlefs.bin''])]"
  by (simp add: esp_env_def esp_board_def esp_name_def esp_port_def stage_defs resolve_defs js_defs)

lemma failing_build_returns:
  "uploadLittleFS failing_build_env = Some (pipeline failing_build_env pico_board pico_name)"
  by (simp add: uploadLittleFS_def failing_build_env_def pico_env_def await_writer_now
      await_writer_later)

lemma failing_build_spawns:
  "spawns (events (pipeline failing_build_env pico_board pico_name)) =
     [(''/opt/pqt/mklittlefs/mklittlefs'',
       [''-c'', ''/home/u/blink/data'', ''-p'', ''256'', ''-b'', ''4096'', ''-s'', ''1048576'',
        ''/tmp/tmp-4711.littlefs.bin''])]"
  by (simp add: failing_build_env_def pico_env_def pico_board_def pico_name_def stage_defs
      resolve_defs js_defs)

lemma twice_selected_values:
  "selected_values (optSeek RP2040) twice_selected_board =
     [\<lparr>val = ''A'', selected = True\<rparr>, \<lparr>val = ''B'', selected = True\<rparr>]"
  by (simp add: selected_values_def selected_in_def twice_selected_board_def optSeek_def pico_def)

lemma no_port_returns:
  "uploadLittleFS no_port_env = Some (pipeline no_port_env pico_board pico_name)"
  by (simp add: uploadLittleFS_def no_port_env_def pico_env_def await_writer_now await_writer_later)

lemma no_port_events:
  "events (pipeline no_port_env pico_board pico_name) =
     head_events @ [FindTool ''runtime.tools.pqt-mklittlefs'', ReadPort,
                    Fire (''ERROR: No port specified, check IDE menus.'' @ crlf)]"
  by (simp add: no_port_env_def pico_env_def pico_board_def pico_name_def stage_defs
      resolve_defs js_defs)

lemma no_port_outcome:
  "outcome (pipeline no_port_env pico_board pico_name) = UnsupportedPort"
  by (simp add: no_port_env_def pico_env_def pico_board_def pico_name_def stage_defs
      resolve_defs js_defs)

lemma missing_builder_returns:
  "uploadLittleFS missing_builder_env = Some (pipeline missing_builder_env pico_board pico_name)"
  by (simp add: uploadLittleFS_def missing_builder_env_def pico_env_def await_writer_now
      await_writer_later)

lemma missing_builder_events:
  "events (pipeline missing_builder_env pico_board pico_name) =
     head_events
     @ [FindTool ''runtime.tools.pqt-mklittlefs'', ReadPort, FindTool ''runtime.tools.pqt-python3'',
        Fire (''Building LittleFS filesystem'' @ crlf),
        Fire (''/opt/pqt/mklittlefs/mklittlefs -c /home/u/blink/data -p 256 -b 4096 -s 1048576 /tmp/tmp-4711.littlefs.bin'' @ crlf),
        Spawn ''/opt/pqt/mklittlefs/mklittlefs''
          [''-c'', ''/home/u/blink/data'', ''-p'', ''256'', ''-b'', ''4096'', ''-s'', ''1048576'',
           ''/tmp/tmp-4711.littlefs.bin'']]"
  by (simp add: missing_builder_env_def pico_env_def pico_board_def pico_name_def stage_defs
      resolve_defs js_defs)

lemma missing_builder_outcome:
  "outcome (pipeline missing_builder_env pico_board pico_name) = UnhandledSpawnError"
  by (simp add: missing_builder_env_def pico_env_def pico_board_def pico_name_def stage_defs
      resolve_defs js_defs)

lemma second_returns:
  "uploadLittleFS second_env = Some (pipeline second_env pico_board pico_name)"
  by (simp add: uploadLittleFS_def second_env_def pico_env_def await_writer_now await_writer_later)




lemma pico_lookups:
  "lookups (after_port (events (pipeline pico_env pico_board pico_name))) =
     [''runtime.tools.pqt-python3'', ''runtime.platform.path'']"
  by (simp add: after_port_def pico_env_def pico_board_def pico_name_def stage_defs resolve_defs
      js_defs)

section \<open>The claims\<close>

text \<open>
  Claim C1. In every run that gets as far as resolving the geometry (board details and
  board name present, data folder found, family supported), the handler leaves with the
  message ``No filesystem specified'' exactly when one of the resolved start, end, page
  size and block size is missing (\<open>NaN\<close>) or zero, or the end is not above the start; it
  has then looked up no tool and spawned no process. Otherwise start and end are
  numbers, the size \<open>end - start\<close> is strictly positive, and it is the size the builder
  is given after \<^verbatim>\<open>-s\<close>.
\<close>

theorem geometry_validation:
  assumes "uploadLittleFS e = Some r"
    and "boardDetails (ctx e) = Some bd" and "fqbn (ctx e) = Some name"
    and "existsSync e (dataFolder (ctx e))" and "family_of name = Some fam"
  shows "((outcome r = MissingFilesystemConfig) =
            (fsStart (resolve fam bd) \<in> {NaN, Num 0} \<or> fsEnd (resolve fam bd) \<in> {NaN, Num 0}
             \<or> page (resolve fam bd) \<in> {NaN, Num 0} \<or> blocksize (resolve fam bd) \<in> {NaN, Num 0}
             \<or> (\<exists>a b. fsStart (resolve fam bd) = Num a \<and> fsEnd (resolve fam bd) = Num b \<and> b \<le> a)))
       \<and> (outcome r = MissingFilesystemConfig \<longrightarrow>
            events r = head_events
              @ [Fire (''ERROR: No filesystem specified, check flash size menu'' @ crlf)])
       \<and> (outcome r \<noteq> MissingFilesystemConfig \<longrightarrow>
            (\<exists>a b. fsStart (resolve fam bd) = Num a \<and> fsEnd (resolve fam bd) = Num b \<and> 0 < b - a
               \<and> (\<forall>cmd args rest. spawns (events r) = (cmd, args) # rest \<longrightarrow>
                     args ! 6 = ''-s'' \<and> args ! 7 = String_js (Num (b - a)))))"
proof -
  let ?bad = "fsStart (resolve fam bd) \<in> {NaN, Num 0} \<or> fsEnd (resolve fam bd) \<in> {NaN, Num 0}
             \<or> page (resolve fam bd) \<in> {NaN, Num 0} \<or> blocksize (resolve fam bd) \<in> {NaN, Num 0}
             \<or> (\<exists>a b. fsStart (resolve fam bd) = Num a \<and> fsEnd (resolve fam bd) = Num b \<and> b \<le> a)"
  have bad: "no_filesystem (resolve fam bd) = ?bad"
    by (rule no_filesystem_iff)
  have r: "r = pipeline e bd name"
    using assms(1-3) by (rule uploadLittleFS_pipeline)
  show ?thesis
  proof (cases "no_filesystem (resolve fam bd)")
    case True
    with assms(4,5) have "r = stop (head_events
        @ [Fire (''ERROR: No filesystem specified, check flash size menu'' @ crlf)])
        MissingFilesystemConfig"
      unfolding r by (rule pipeline_no_filesystem)
    then have "outcome r = MissingFilesystemConfig"
      and "events r = head_events
        @ [Fire (''ERROR: No filesystem specified, check flash size menu'' @ crlf)]"
      by (simp_all add: run_simps)
    moreover from True bad have ?bad by blast
    ultimately show ?thesis by blast
  next
    case False
    with assms(4,5) have located:
      "r = emit head_events (locate_stage e fam (resolve fam bd) (dataFolder (ctx e)))"
      unfolding r by (rule pipeline_located)
    then have out: "outcome r \<noteq> MissingFilesystemConfig"
      by (simp add: run_simps outcome_locate_stage_not_config)
    from False obtain a b where ab: "fsStart (resolve fam bd) = Num a"
      "fsEnd (resolve fam bd) = Num b" "a < b"
      by (rule filesystem_size)
    have "args ! 6 = ''-s'' \<and> args ! 7 = String_js (Num (b - a))"
      if "spawns (events r) = (cmd, args) # rest" for cmd args rest
    proof (cases rule: locate_stage_cases [of e fam "resolve fam bd" "dataFolder (ctx e)"])
      case no_port
      with located that show ?thesis by (simp add: run_simps spawns_head_events)
    next
      case (not_serial p)
      with located that show ?thesis by (simp add: run_simps spawns_head_events)
    next
      case (serial p)
      with located that have "args = buildOpts (dataFolder (ctx e)) (resolve fam bd)
          (tmpName e @ ''.littlefs.bin'')"
        by (simp add: run_simps spawns_head_events spawns_build_stage)
      with ab show ?thesis by (simp add: buildOpts_def)
    qed
    with ab have "\<exists>a b. fsStart (resolve fam bd) = Num a \<and> fsEnd (resolve fam bd) = Num b \<and> 0 < b - a
               \<and> (\<forall>cmd args rest. spawns (events r) = (cmd, args) # rest \<longrightarrow>
                     args ! 6 = ''-s'' \<and> args ! 7 = String_js (Num (b - a)))"
      by auto
    moreover from False bad have "\<not> ?bad" by blast
    ultimately show ?thesis using out by blast
  qed
qed

theorem geometry_validation_witness:
  "uploadLittleFS pico_env = Some (pipeline pico_env pico_board pico_name)
   \<and> outcome (pipeline pico_env pico_board pico_name) = Completed
   \<and> fsStart (resolve RP2040 pico_board) = Num 3145728
   \<and> fsEnd (resolve RP2040 pico_board) = Num 4194304
   \<and> snd (hd (spawns (events (pipeline pico_env pico_board pico_name)))) ! 7 = ''1048576''
   \<and> uploadLittleFS unselected_env = Some (pipeline unselected_env unselected_board pico_name)
   \<and> fsStart (resolve RP2040 unselected_board) = Num 0
   \<and> outcome (pipeline unselected_env unselected_board pico_name) = MissingFilesystemConfig
   \<and> events (pipeline unselected_env unselected_board pico_name) =
       head_events @ [Fire (''ERROR: No filesystem specified, check flash size menu'' @ crlf)]"
proof -
  have 1: "boardDetails (ctx pico_env) = Some pico_board" "fqbn (ctx pico_env) = Some pico_name"
    "existsSync pico_env (dataFolder (ctx pico_env))"
    by (simp_all add: pico_env_def dataFolder_def)
  have 2: "boardDetails (ctx unselected_env) = Some unselected_board"
    "fqbn (ctx unselected_env) = Some pico_name"
    "existsSync unselected_env (dataFolder (ctx unselected_env))"
    by (simp_all add: unselected_env_def pico_env_def dataFolder_def)
  note good = geometry_validation [OF pico_returns 1 pico_family]
  note bad = geometry_validation [OF unselected_returns 2 pico_family]
  from bad have "events (pipeline unselected_env unselected_board pico_name) =
       head_events @ [Fire (''ERROR: No filesystem specified, check flash size menu'' @ crlf)]"
    by (simp add: unselected_resolve)
  moreover from good have "snd (hd (spawns (events (pipeline pico_env pico_board pico_name)))) ! 7
      = ''1048576''"
    by (simp add: pico_resolve pico_outcome pico_spawns decimal.simps)
  ultimately show ?thesis
    using bad by (simp add: pico_returns pico_outcome pico_resolve unselected_returns unselected_resolve)
qed

text \<open>
  Claim C2. In every run that reaches the build stage, whatever the family, the first
  process spawned is the builder, and its argument list is exactly
  \<^verbatim>\<open>-c <dataFolder> -p <page> -b <blocksize> -s <end - start> <imageFile>\<close>, in this order.
  Only the command differs between the families: it is \<^verbatim>\<open>mklittlefs\<close> under the
  directory found for the family's key. For \<^verbatim>\<open>rp2040\<close> the page is 256 and the block
  size 4096.
\<close>

theorem builder_invocation:
  assumes "uploadLittleFS e = Some r"
    and "boardDetails (ctx e) = Some bd" and "fqbn (ctx e) = Some name"
    and "family_of name = Some fam"
    and "spawns (events r) = (cmd, args) # rest"
  shows "cmd = mklittlefs e fam
       \<and> (\<exists>a b p q. fsStart (resolve fam bd) = Num a \<and> fsEnd (resolve fam bd) = Num b
             \<and> page (resolve fam bd) = Num p \<and> blocksize (resolve fam bd) = Num q
             \<and> (fam = RP2040 \<longrightarrow> p = 256 \<and> q = 4096)
             \<and> args = [''-c'', dataFolder (ctx e), ''-p'', String_js (Num p), ''-b'', String_js (Num q),
                        ''-s'', String_js (Num (b - a)), tmpName e @ ''.littlefs.bin''])"
proof -
  from assms(5) have "spawns (events r) \<noteq> []" by simp
  with assms(1) obtain bd' name' fam' p where run:
    "boardDetails (ctx e) = Some bd'" "fqbn (ctx e) = Some name'"
    "existsSync e (dataFolder (ctx e))" "family_of name' = Some fam'"
    "\<not> no_filesystem (resolve fam' bd')" "port (ctx e) = Some p" "protocol p = ''serial''"
    "r = emit (head_events @ [FindTool (mklittlefs_key fam'), ReadPort, FindTool (python3_key fam')])
           (build_stage e fam' (resolve fam' bd') (dataFolder (ctx e)) (mklittlefs e fam') (address p)
              (python3 e fam'))"
    by (rule built_run)
  with assms(2-4) have same: "bd' = bd" "fam' = fam" by simp_all
  from run(8) assms(5) have cmd: "cmd = mklittlefs e fam"
    and args: "args = buildOpts (dataFolder (ctx e)) (resolve fam bd) (tmpName e @ ''.littlefs.bin'')"
    unfolding same by (simp_all add: spawns_built_run spawns_build_stage)
  from run(5) obtain a b p q where g: "fsStart (resolve fam bd) = Num a" "fsEnd (resolve fam bd) = Num b"
    "page (resolve fam bd) = Num p" "blocksize (resolve fam bd) = Num q"
    unfolding same by (rule filesystem_size)
  have "p = 256 \<and> q = 4096" if "fam = RP2040"
    using resolve_pico_sizes [of bd] run(5) g that unfolding same by simp
  with cmd args g show ?thesis by (simp add: buildOpts_def)
qed

theorem builder_invocation_witness:
  "uploadLittleFS pico_env = Some (pipeline pico_env pico_board pico_name)
   \<and> family_of pico_name = Some RP2040
   \<and> spawns (events (pipeline pico_env pico_board pico_name)) \<noteq> []
   \<and> hd (spawns (events (pipeline pico_env pico_board pico_name))) =
        (mklittlefs pico_env RP2040,
         [''-c'', ''/home/u/blink/data'', ''-p'', ''256'', ''-b'', ''4096'', ''-s'', ''1048576'',
          ''/tmp/tmp-4711.littlefs.bin''])
   \<and> uploadLittleFS esp_env = Some (pipeline esp_env esp_board esp_name)
   \<and> family_of esp_name = Some ESP8266
   \<and> hd (spawns (events (pipeline esp_env esp_board esp_name))) =
        (mklittlefs esp_env ESP8266,
         [''-c'', ''C:/sketch/data'', ''-p'', ''256'', ''-b'', ''8192'', ''-s'', ''1028096'',
          ''C:/tmp/tmp-7.littlefs.bin''])"
proof -
  have 1: "boardDetails (ctx pico_env) = Some pico_board" "fqbn (ctx pico_env) = Some pico_name"
    by (simp_all add: pico_env_def)
  have 2: "boardDetails (ctx esp_env) = Some esp_board" "fqbn (ctx esp_env) = Some esp_name"
    by (simp_all add: esp_env_def)
  from builder_invocation [OF pico_returns 1 pico_family pico_spawns]
  have "''/opt/pqt/mklittlefs/mklittlefs'' = mklittlefs pico_env RP2040" by simp
  moreover from builder_invocation [OF esp_returns 2 esp_family esp_spawns]
  have "''mklittlefs.exe'' = mklittlefs esp_env ESP8266" by simp
  ultimately show ?thesis
    by (simp add: pico_returns pico_family pico_spawns esp_returns esp_family esp_spawns)
qed

text \<open>
  Claim C3. When the builder closes with a non-zero exit code, the handler writes the
  message ``Mklittlefs failed, error code: <code>'' and returns: that message is the
  last thing the run does, and the builder is the only process it has spawned.
\<close>

theorem build_failure_stops:
  assumes "uploadLittleFS e = Some r"
    and "spawns (events r) = (cmd, args) # rest"
    and "spawn e cmd args = Closed out err (Some code)" and "code \<noteq> 0"
  shows "outcome r = BuildFailure code \<and> rest = []
       \<and> last (events r) =
           Fire (''ERROR:  Mklittlefs failed, error code: '' @ String_js (Num code) @ crlf @ crlf)"
proof -
  from assms(2) have "spawns (events r) \<noteq> []" by simp
  with assms(1) obtain bd name fam p where run:
    "boardDetails (ctx e) = Some bd" "fqbn (ctx e) = Some name"
    "existsSync e (dataFolder (ctx e))" "family_of name = Some fam"
    "\<not> no_filesystem (resolve fam bd)" "port (ctx e) = Some p" "protocol p = ''serial''"
    "r = emit (head_events @ [FindTool (mklittlefs_key fam), ReadPort, FindTool (python3_key fam)])
           (build_stage e fam (resolve fam bd) (dataFolder (ctx e)) (mklittlefs e fam) (address p)
              (python3 e fam))"
    by (rule built_run)
  note r = run(8)
  let ?opts = "buildOpts (dataFolder (ctx e)) (resolve fam bd) (tmpName e @ ''.littlefs.bin'')"
  from r assms(2) have "cmd = mklittlefs e fam" "args = ?opts"
    by (simp_all add: spawns_built_run spawns_build_stage)
  with assms(3) have "spawn e (mklittlefs e fam) ?opts = Closed out err (Some code)"
    by simp
  from events_build_failure [OF this assms(4)] r assms(2) show ?thesis
    by (simp add: run_simps spawns_head_events)
qed

theorem build_failure_stops_witness:
  "uploadLittleFS failing_build_env = Some (pipeline failing_build_env pico_board pico_name)
   \<and> spawn failing_build_env ''/opt/pqt/mklittlefs/mklittlefs''
        [''-c'', ''/home/u/blink/data'', ''-p'', ''256'', ''-b'', ''4096'', ''-s'', ''1048576'',
         ''/tmp/tmp-4711.littlefs.bin''] = Closed [] [''no space'' @ [LF]] (Some 2)
   \<and> outcome (pipeline failing_build_env pico_board pico_name) = BuildFailure 2
   \<and> length (spawns (events (pipeline failing_build_env pico_board pico_name))) = 1
   \<and> last (events (pipeline failing_build_env pico_board pico_name)) =
        Fire (''ERROR:  Mklittlefs failed, error code: 2'' @ crlf @ crlf)"
proof -
  have "spawn failing_build_env ''/opt/pqt/mklittlefs/mklittlefs''
        [''-c'', ''/home/u/blink/data'', ''-p'', ''256'', ''-b'', ''4096'', ''-s'', ''1048576'',
         ''/tmp/tmp-4711.littlefs.bin''] = Closed [] [''no space'' @ [LF]] (Some 2)"
    by (simp add: failing_build_env_def)
  from build_failure_stops [OF failing_build_returns failing_build_spawns this] this
  show ?thesis
    by (simp add: failing_build_returns failing_build_spawns decimal.simps)
qed

text \<open>
  Claim C4. In every \<^verbatim>\<open>esp8266\<close> run that reaches the upload stage, the second process
  spawned is the interpreter with the arguments \<^verbatim>\<open><upload.py> --chip esp8266 --port
  <port> --baud <baud> write_flash <fsStart> <imageFile>\<close>, where the baud rate is
  \<^verbatim>\<open>Number\<close> of the last selected value of the options named \<^verbatim>\<open>baud\<close> if there is
  one, and 115200 otherwise. No further process is spawned.
\<close>

theorem esp8266_uploader_invocation:
  assumes "uploadLittleFS e = Some r"
    and "boardDetails (ctx e) = Some bd" and "fqbn (ctx e) = Some name"
    and "family_of name = Some ESP8266" and "port (ctx e) = Some p"
    and "spawns (events r) = built # (cmd, args) # rest"
  shows "cmd = python3 e ESP8266
       \<and> args = [under (findTool (ctx e) ''runtime.platform.path'') ''tools/upload.py'',
                  ''--chip'', ''esp8266'', ''--port'', address p,
                  ''--baud'',
                  String_js (if selected_values ''baud'' bd = [] then Num 115200
                             else Number_string (val (last (selected_values ''baud'' bd)))),
                  ''write_flash'', String_js (fsStart (resolve ESP8266 bd)),
                  tmpName e @ ''.littlefs.bin'']
       \<and> rest = []"
proof -
  from assms(6) have "spawns (events r) \<noteq> []" by simp
  with assms(1) obtain bd' name' fam' p' where run:
    "boardDetails (ctx e) = Some bd'" "fqbn (ctx e) = Some name'"
    "existsSync e (dataFolder (ctx e))" "family_of name' = Some fam'"
    "\<not> no_filesystem (resolve fam' bd')" "port (ctx e) = Some p'" "protocol p' = ''serial''"
    "r = emit (head_events @ [FindTool (mklittlefs_key fam'), ReadPort, FindTool (python3_key fam')])
           (build_stage e fam' (resolve fam' bd') (dataFolder (ctx e)) (mklittlefs e fam') (address p')
              (python3 e fam'))"
    by (rule built_run)
  with assms(2-5) have same: "bd' = bd" "fam' = ESP8266" "p' = p" by simp_all
  from run(8) assms(6) have "cmd = python3 e ESP8266"
    and "args = uploadOpts (ctx e) ESP8266 (resolve ESP8266 bd) (address p) (tmpName e @ ''.littlefs.bin'')"
    and "rest = []"
    unfolding same
    by (simp_all add: spawns_built_run spawns_build_stage split: proc_result.splits option.splits)
  then show ?thesis
    by (simp add: uploadOpts_def pico_def resolve_uploadSpeed)
qed

theorem esp8266_uploader_invocation_witness:
  "uploadLittleFS esp_env = Some (pipeline esp_env esp_board esp_name)
   \<and> family_of esp_name = Some ESP8266
   \<and> length (spawns (events (pipeline esp_env esp_board esp_name))) = 2
   \<and> spawns (events (pipeline esp_env esp_board esp_name)) ! 1 =
        (python3 esp_env ESP8266,
         [under (findTool (ctx esp_env) ''runtime.platform.path'') ''tools/upload.py'',
          ''--chip'', ''esp8266'', ''--port'', ''COM3'', ''--baud'', ''460800'',
          ''write_flash'', ''2097152'', ''C:/tmp/tmp-7.littlefs.bin''])"
proof -
  have 1: "boardDetails (ctx esp_env) = Some esp_board" "fqbn (ctx esp_env) = Some esp_name"
    "port (ctx esp_env) = Some esp_port"
    by (simp_all add: esp_env_def)
  from esp8266_uploader_invocation [OF esp_returns 1(1,2) esp_family 1(3) esp_spawns]
  have "''python3.exe'' = python3 esp_env ESP8266"
    and "''C:/esp8266/tools/upload.py'' =
           under (findTool (ctx esp_env) ''runtime.platform.path'') ''tools/upload.py''"
    by simp_all
  then show ?thesis
    by (simp add: esp_returns esp_family esp_spawns)
qed

text \<open>
  Claim C5, as the code has it. The claim puts the port checks before every tool lookup.
  In the code the lookup of the builder's directory comes first: in every run that
  reaches the port checks, exactly one tool has been looked up before them, the builder
  under the family's key, and nothing has been spawned. The lookups of the interpreter
  and of the platform path come after the port checks, and a run that the port checks
  end has looked up the builder only and spawned nothing.
\<close>

theorem builder_lookup_precedes_port_check:
  assumes "uploadLittleFS e = Some r"
    and "fqbn (ctx e) = Some name" and "family_of name = Some fam"
    and "ReadPort \<in> set (events r)"
  shows "lookups (before_port (events r)) = [mklittlefs_key fam]
       \<and> spawns (before_port (events r)) = []
       \<and> lookups (after_port (events r))
           \<in> {[], [python3_key fam], [python3_key fam, ''runtime.platform.path'']}
       \<and> (outcome r = UnsupportedPort \<longrightarrow>
             lookups (events r) = [mklittlefs_key fam] \<and> spawns (events r) = [])"
proof -
  from assms(1,4) obtain bd name' fam' where run:
    "boardDetails (ctx e) = Some bd" "fqbn (ctx e) = Some name'"
    "existsSync e (dataFolder (ctx e))" "family_of name' = Some fam'"
    "\<not> no_filesystem (resolve fam' bd)"
    "r = emit head_events (locate_stage e fam' (resolve fam' bd) (dataFolder (ctx e)))"
    by (rule located_run)
  with assms(2,3) have same: "fam' = fam" by simp
  note r = run(6) [unfolded same]
  have before: "lookups (before_port (events r)) = [mklittlefs_key fam]"
    "spawns (before_port (events r)) = []"
    unfolding r before_port_located
    by (simp_all add: run_simps lookups_head_events spawns_head_events)
  have rest: "lookups (after_port (events r))
           \<in> {[], [python3_key fam], [python3_key fam, ''runtime.platform.path'']}
       \<and> (outcome r = UnsupportedPort \<longrightarrow>
             lookups (events r) = [mklittlefs_key fam] \<and> spawns (events r) = [])"
  proof (cases rule: locate_stage_cases [of e fam "resolve fam bd" "dataFolder (ctx e)"])
    case no_port
    then show ?thesis
      unfolding r after_port_located
      by (simp add: run_simps lookups_head_events spawns_head_events)
  next
    case (not_serial p)
    then show ?thesis
      unfolding r after_port_located
      by (simp add: run_simps lookups_head_events spawns_head_events)
  next
    case (serial p)
    then show ?thesis
      unfolding r after_port_located
      by (simp add: run_simps lookups_build_stage outcome_build_stage outcome_upload_stage
          split: proc_result.split option.split)
  qed
  with before show ?thesis by blast
qed

theorem builder_lookup_precedes_port_check_witness:
  "uploadLittleFS no_port_env = Some (pipeline no_port_env pico_board pico_name)
   \<and> fqbn (ctx no_port_env) = Some pico_name \<and> family_of pico_name = Some RP2040
   \<and> ReadPort \<in> set (events (pipeline no_port_env pico_board pico_name))
   \<and> outcome (pipeline no_port_env pico_board pico_name) = UnsupportedPort
   \<and> lookups (events (pipeline no_port_env pico_board pico_name)) = [mklittlefs_key RP2040]
   \<and> spawns (events (pipeline no_port_env pico_board pico_name)) = []
   \<and> uploadLittleFS pico_env = Some (pipeline pico_env pico_board pico_name)
   \<and> lookups (before_port (events (pipeline pico_env pico_board pico_name)))
       = [mklittlefs_key RP2040]
   \<and> lookups (after_port (events (pipeline pico_env pico_board pico_name)))
       = [python3_key RP2040, ''runtime.platform.path'']"
proof -
  have 1: "fqbn (ctx no_port_env) = Some pico_name"
    by (simp add: no_port_env_def pico_env_def)
  have 2: "ReadPort \<in> set (events (pipeline no_port_env pico_board pico_name))"
    by (simp add: no_port_events)
  have 3: "fqbn (ctx pico_env) = Some pico_name"
    by (simp add: pico_env_def)
  have 4: "ReadPort \<in> set (events (pipeline pico_env pico_board pico_name))"
  proof (rule ccontr)
    assume "ReadPort \<notin> set (events (pipeline pico_env pico_board pico_name))"
    then have "after_port (events (pipeline pico_env pico_board pico_name)) = []"
      by (auto simp: after_port_def dropWhile_eq_Nil_conv)
    with pico_lookups show False by simp
  qed
  from builder_lookup_precedes_port_check [OF pico_returns 3 pico_family 4]
  have "lookups (before_port (events (pipeline pico_env pico_board pico_name)))
      = [mklittlefs_key RP2040]"
    by simp
  moreover have "[python3_key RP2040, ''runtime.platform.path'']
      = [''runtime.tools.pqt-python3'', ''runtime.platform.path'']"
    by (simp add: python3_key_def pico_def)
  moreover note builder_lookup_precedes_port_check [OF no_port_returns 1 pico_family 2]
  ultimately show ?thesis
    using 1 2 by (simp add: no_port_returns no_port_outcome pico_family pico_returns pico_lookups)
qed

text \<open>
  The claim as stated fails on the RP2040 run with no port selected: the run ends with
  the port error, and the builder's directory has been looked up before the port was
  read.
\<close>

theorem port_check_first_counterexample:
  "uploadLittleFS no_port_env = Some (pipeline no_port_env pico_board pico_name)
   \<and> outcome (pipeline no_port_env pico_board pico_name) = UnsupportedPort
   \<and> events (pipeline no_port_env pico_board pico_name) =
       head_events @ [FindTool ''runtime.tools.pqt-mklittlefs'', ReadPort,
                      Fire (''ERROR: No port specified, check IDE menus.'' @ crlf)]
   \<and> lookups (before_port (events (pipeline no_port_env pico_board pico_name))) =
       [''runtime.tools.pqt-mklittlefs'']
   \<and> lookups (before_port (events (pipeline no_port_env pico_board pico_name))) \<noteq> []"
  by (simp add: no_port_returns no_port_outcome no_port_events before_port_def head_events_def)

text \<open>
  Claim C6, as the code has it. The claim leaves a line feed alone when a carriage
  return precedes it. The code replaces every line feed of a chunk by carriage return
  and line feed, whatever precedes it; what it forwards is the text of the claim exactly
  for the chunks in which no line feed follows a carriage return.
\<close>

theorem every_line_feed_rewritten:
  "forward chunks = map (\<lambda>chunk. Fire (concat (map (\<lambda>c. if c = LF then [CR, LF] else [c]) chunk))) chunks
   \<and> (replace_lf chunk = bare_lf_to_crlf chunk) = (\<not> has_crlf chunk)"
  using rewrite_bare_agrees [of False chunk]
  by (auto simp: forward_def replace_lf_concat bare_lf_to_crlf_def)

theorem every_line_feed_rewritten_witness:
  "forward [''ok'' @ [LF]] = [Fire (''ok'' @ [CR, LF])]
   \<and> \<not> has_crlf (''ok'' @ [LF])
   \<and> replace_lf (''ok'' @ [LF]) = bare_lf_to_crlf (''ok'' @ [LF])"
  using every_line_feed_rewritten [of "[''ok'' @ [LF]]" "''ok'' @ [LF]"]
  by (simp add: CR_def LF_def)

text \<open>
  The claim as stated fails on a chunk that ends in carriage return and line feed: the
  code forwards it with a second carriage return.
\<close>

theorem crlf_kept_counterexample:
  "forward [''ok'' @ [CR, LF]] = [Fire (''ok'' @ [CR, CR, LF])]
   \<and> bare_lf_to_crlf (''ok'' @ [CR, LF]) = ''ok'' @ [CR, LF]
   \<and> replace_lf (''ok'' @ [CR, LF]) \<noteq> bare_lf_to_crlf (''ok'' @ [CR, LF])"
  by (simp add: forward_def bare_lf_to_crlf_def CR_def LF_def)

text \<open>
  Claim C7, as the code has it. The claim has a spawn failure reported as an error of
  its own. The handler has no code for it: when a process it spawns cannot be started,
  the run ends in none of the handler's returns, and the spawn is the last thing the
  run has done, so no message about the failure is written and no later stage runs.
\<close>

theorem spawn_failure_unreported:
  assumes "uploadLittleFS e = Some r"
    and "(cmd, args) \<in> set (spawns (events r))"
    and "spawn e cmd args = SpawnError"
  shows "outcome r = UnhandledSpawnError \<and> last (events r) = Spawn cmd args"
proof -
  from assms(2) have "spawns (events r) \<noteq> []" by auto
  with assms(1) obtain bd name fam p where run:
    "boardDetails (ctx e) = Some bd" "fqbn (ctx e) = Some name"
    "existsSync e (dataFolder (ctx e))" "family_of name = Some fam"
    "\<not> no_filesystem (resolve fam bd)" "port (ctx e) = Some p" "protocol p = ''serial''"
    "r = emit (head_events @ [FindTool (mklittlefs_key fam), ReadPort, FindTool (python3_key fam)])
           (build_stage e fam (resolve fam bd) (dataFolder (ctx e)) (mklittlefs e fam) (address p)
              (python3 e fam))"
    by (rule built_run)
  let ?b = "build_stage e fam (resolve fam bd) (dataFolder (ctx e)) (mklittlefs e fam) (address p)
              (python3 e fam)"
  from run(8) assms(2) have inb: "(cmd, args) \<in> set (spawns (events ?b))"
    by (simp add: spawns_built_run)
  from build_stage_spawn_failure [OF inb assms(3)]
  have "outcome ?b = UnhandledSpawnError" and l: "last (events ?b) = Spawn cmd args"
    by simp_all
  moreover from inb have "events ?b \<noteq> []"
    by auto
  ultimately show ?thesis
    unfolding run(8) by (simp add: run_simps)
qed

theorem spawn_failure_unreported_witness:
  "uploadLittleFS missing_builder_env = Some (pipeline missing_builder_env pico_board pico_name)
   \<and> spawn missing_builder_env ''/opt/pqt/mklittlefs/mklittlefs''
        [''-c'', ''/home/u/blink/data'', ''-p'', ''256'', ''-b'', ''4096'', ''-s'', ''1048576'',
         ''/tmp/tmp-4711.littlefs.bin''] = SpawnError
   \<and> outcome (pipeline missing_builder_env pico_board pico_name) = UnhandledSpawnError
   \<and> last (events (pipeline missing_builder_env pico_board pico_name)) =
       Spawn ''/opt/pqt/mklittlefs/mklittlefs''
          [''-c'', ''/home/u/blink/data'', ''-p'', ''256'', ''-b'', ''4096'', ''-s'', ''1048576'',
           ''/tmp/tmp-4711.littlefs.bin'']"
proof -
  let ?args = "[''-c'', ''/home/u/blink/data'', ''-p'', ''256'', ''-b'', ''4096'', ''-s'', ''1048576'',
         ''/tmp/tmp-4711.littlefs.bin'']"
  have 1: "(''/opt/pqt/mklittlefs/mklittlefs'', ?args)
      \<in> set (spawns (events (pipeline missing_builder_env pico_board pico_name)))"
    by (simp add: missing_builder_events run_simps spawns_head_events)
  have 2: "spawn missing_builder_env ''/opt/pqt/mklittlefs/mklittlefs'' ?args = SpawnError"
    by (simp add: missing_builder_env_def)
  from spawn_failure_unreported [OF missing_builder_returns 1 2] 2 show ?thesis
    by (simp add: missing_builder_returns)
qed

text \<open>
  The claim as stated fails on the RP2040 run in which the builder cannot be spawned:
  the run writes the banner, the stage line and the command line, and nothing after
  the spawn.
\<close>

theorem spawn_failure_message_counterexample:
  "uploadLittleFS missing_builder_env = Some (pipeline missing_builder_env pico_board pico_name)
   \<and> spawn missing_builder_env ''/opt/pqt/mklittlefs/mklittlefs''
        [''-c'', ''/home/u/blink/data'', ''-p'', ''256'', ''-b'', ''4096'', ''-s'', ''1048576'',
         ''/tmp/tmp-4711.littlefs.bin''] = SpawnError
   \<and> events (pipeline missing_builder_env pico_board pico_name) =
       head_events
       @ [FindTool ''runtime.tools.pqt-mklittlefs'', ReadPort, FindTool ''runtime.tools.pqt-python3'',
          Fire (''Building LittleFS filesystem'' @ crlf),
          Fire (''/opt/pqt/mklittlefs/mklittlefs -c /home/u/blink/data -p 256 -b 4096 -s 1048576 /tmp/tmp-4711.littlefs.bin'' @ crlf),
          Spawn ''/opt/pqt/mklittlefs/mklittlefs''
            [''-c'', ''/home/u/blink/data'', ''-p'', ''256'', ''-b'', ''4096'', ''-s'', ''1048576'',
             ''/tmp/tmp-4711.littlefs.bin'']]
   \<and> outcome (pipeline missing_builder_env pico_board pico_name) = UnhandledSpawnError"
  by (simp add: missing_builder_returns missing_builder_events missing_builder_outcome)
     (simp add: missing_builder_env_def)

text \<open>
  Claim C8. Two runs of the handler on the same board metadata, the same data folder and
  the same platform that reach the build stage spawn the same builder command with the
  same arguments, byte for byte, apart from the image file: it is the last argument, and
  it is each run's own temporary name with the postfix \<^verbatim>\<open>.littlefs.bin\<close>, which need not
  repeat from one run to the next.
\<close>

theorem builder_arguments_repeat:
  assumes "uploadLittleFS e1 = Some r1" and "uploadLittleFS e2 = Some r2"
    and "ctx e1 = ctx e2" and "platform e1 = platform e2"
    and "existsSync e1 (dataFolder (ctx e1)) = existsSync e2 (dataFolder (ctx e2))"
    and "spawns (events r1) = (cmd1, args1) # rest1"
  shows "\<exists>cmd2 args2 rest2. spawns (events r2) = (cmd2, args2) # rest2
           \<and> cmd2 = cmd1 \<and> butlast args2 = butlast args1
           \<and> last args1 = tmpName e1 @ ''.littlefs.bin''
           \<and> last args2 = tmpName e2 @ ''.littlefs.bin''"
proof -
  from assms(6) have "spawns (events r1) \<noteq> []" by simp
  with assms(1) obtain bd name fam p where run:
    "boardDetails (ctx e1) = Some bd" "fqbn (ctx e1) = Some name"
    "existsSync e1 (dataFolder (ctx e1))" "family_of name = Some fam"
    "\<not> no_filesystem (resolve fam bd)" "port (ctx e1) = Some p" "protocol p = ''serial''"
    "r1 = emit (head_events @ [FindTool (mklittlefs_key fam), ReadPort, FindTool (python3_key fam)])
           (build_stage e1 fam (resolve fam bd) (dataFolder (ctx e1)) (mklittlefs e1 fam) (address p)
              (python3 e1 fam))"
    by (rule built_run)
  from run(1,2) assms(2,3) have "r2 = pipeline e2 bd name"
    by (simp add: uploadLittleFS_pipeline)
  with run(3-5) assms(3,5) have
    "r2 = emit head_events (locate_stage e2 fam (resolve fam bd) (dataFolder (ctx e2)))"
    by (simp add: pipeline_located)
  with run(6,7) assms(3) have r2:
    "r2 = emit (head_events @ [FindTool (mklittlefs_key fam), ReadPort, FindTool (python3_key fam)])
           (build_stage e2 fam (resolve fam bd) (dataFolder (ctx e2)) (mklittlefs e2 fam) (address p)
              (python3 e2 fam))"
    by (simp add: locate_stage_def emit_def)
  have tool: "mklittlefs e2 fam = mklittlefs e1 fam"
    using assms(3,4) by (simp add: mklittlefs_def ext_def)
  from run(8) assms(6) have 1: "cmd1 = mklittlefs e1 fam"
    "args1 = buildOpts (dataFolder (ctx e1)) (resolve fam bd) (tmpName e1 @ ''.littlefs.bin'')"
    by (simp_all add: spawns_built_run spawns_build_stage)
  obtain rest2 where 2: "spawns (events r2) =
      (mklittlefs e2 fam,
       buildOpts (dataFolder (ctx e2)) (resolve fam bd) (tmpName e2 @ ''.littlefs.bin'')) # rest2"
    unfolding r2 by (simp add: spawns_built_run spawns_build_stage)
  from 1 2 tool assms(3) show ?thesis
    by (simp add: buildOpts_def)
qed

theorem builder_arguments_repeat_witness:
  "uploadLittleFS pico_env = Some (pipeline pico_env pico_board pico_name)
   \<and> uploadLittleFS second_env = Some (pipeline second_env pico_board pico_name)
   \<and> ctx pico_env = ctx second_env \<and> platform pico_env = platform second_env
   \<and> existsSync pico_env (dataFolder (ctx pico_env))
       = existsSync second_env (dataFolder (ctx second_env))
   \<and> spawns (events (pipeline pico_env pico_board pico_name)) \<noteq> []
   \<and> fst (hd (spawns (events (pipeline second_env pico_board pico_name))))
       = fst (hd (spawns (events (pipeline pico_env pico_board pico_name))))
   \<and> butlast (snd (hd (spawns (events (pipeline second_env pico_board pico_name)))))
       = butlast (snd (hd (spawns (events (pipeline pico_env pico_board pico_name)))))
   \<and> last (snd (hd (spawns (events (pipeline second_env pico_board pico_name)))))
       = tmpName second_env @ ''.littlefs.bin''"
proof -
  have 1: "ctx pico_env = ctx second_env" "platform pico_env = platform second_env"
    "existsSync pico_env (dataFolder (ctx pico_env))
       = existsSync second_env (dataFolder (ctx second_env))"
    by (simp_all add: second_env_def)
  from builder_arguments_repeat [OF pico_returns second_returns 1 pico_spawns] 1
  show ?thesis
    by (auto simp: pico_returns second_returns pico_spawns)
qed

text \<open>
  Claim C9. When the sizing option (\<^verbatim>\<open>flash\<close> for \<^verbatim>\<open>rp2040\<close>, \<^verbatim>\<open>eesz\<close> for
  \<^verbatim>\<open>esp8266\<close>) has selected values, one or several, the resolved start, end, page and
  block size are those looked up for the last selected value in the order of the scan:
  every selected value overwrites what an earlier one had set.
\<close>

theorem last_selected_wins:
  assumes "selected_values (optSeek fam) bd \<noteq> []"
  shows "fsStart (resolve fam bd) =
           Number_js (property bd (menustr fam (last (selected_values (optSeek fam) bd))
                                   @ startMarker fam))
       \<and> fsEnd (resolve fam bd) =
           Number_js (property bd (menustr fam (last (selected_values (optSeek fam) bd))
                                   @ endMarker fam))
       \<and> page (resolve fam bd) =
           (if fam = RP2040 then Num 256
            else Number_js (property bd (menustr fam (last (selected_values (optSeek fam) bd))
                                         @ ''spiffs_pagesize'')))
       \<and> blocksize (resolve fam bd) =
           (if fam = RP2040 then Num 4096
            else Number_js (property bd (menustr fam (last (selected_values (optSeek fam) bd))
                                         @ ''spiffs_blocksize'')))"
  using resolve_selected [OF assms] by (simp add: pico_def)

theorem last_selected_wins_witness:
  "selected_values (optSeek RP2040) twice_selected_board =
     [\<lparr>val = ''A'', selected = True\<rparr>, \<lparr>val = ''B'', selected = True\<rparr>]
   \<and> fsStart (resolve RP2040 twice_selected_board) = Num 65536
   \<and> fsEnd (resolve RP2040 twice_selected_board) = Num 131072
   \<and> page (resolve RP2040 twice_selected_board) = Num 256
   \<and> blocksize (resolve RP2040 twice_selected_board) = Num 4096"
proof -
  have "selected_values (optSeek RP2040) twice_selected_board \<noteq> []"
    by (simp add: twice_selected_values)
  from last_selected_wins [OF this, unfolded twice_selected_values]
  have "fsStart (resolve RP2040 twice_selected_board) = Num 65536
      \<and> fsEnd (resolve RP2040 twice_selected_board) = Num 131072
      \<and> page (resolve RP2040 twice_selected_board) = Num 256
      \<and> blocksize (resolve RP2040 twice_selected_board) = Num 4096"
    by (simp add: twice_selected_board_def menustr_def optSeek_def startMarker_def endMarker_def
        pico_def property_def js_defs)
  with twice_selected_values show ?thesis by simp
qed



end
